theory Spec2Isabelle
  imports Complex_Main "HOL-Library.Multiset"
begin

section \<open>Data model (backend/src/types/index.ts)\<close>

text \<open>
  The board has three columns. A task row carries four logical fields (title,
  description, columnId, position), a global version and one version stamp per
  logical field. Versions are JavaScript numbers holding integers and are modelled
  as \<open>int\<close>; positions are JavaScript numbers and are modelled by their exact
  rational value. Identifiers and timestamps are strings.
\<close>

datatype Column = Todo | InProgress | Done

record Task =
  idT :: string
  title :: string
  description :: string
  columnId :: Column
  position :: rat
  version :: int
  titleVersion :: int
  descriptionVersion :: int
  columnVersion :: int
  positionVersion :: int
  createdAt :: string
  updatedAt :: string

text \<open>
  \<open>TaskMutation\<close> is an object with the optional keys title, description, columnId
  and position. \<open>Object.entries\<close> enumerates its own keys in insertion order, so a
  mutation is the list of its entries; each entry is a key together with a value of
  the type the interface gives that key.
\<close>

datatype Field = FTitle | FDescription | FColumnId | FPosition

datatype Change =
    SetTitle string
  | SetDescription string
  | SetColumnId Column
  | SetPosition rat

fun field_of :: "Change \<Rightarrow> Field" where
  "field_of (SetTitle v) = FTitle"
| "field_of (SetDescription v) = FDescription"
| "field_of (SetColumnId v) = FColumnId"
| "field_of (SetPosition v) = FPosition"

fun field_name :: "Field \<Rightarrow> string" where
  "field_name FTitle = ''title''"
| "field_name FDescription = ''description''"
| "field_name FColumnId = ''columnId''"
| "field_name FPosition = ''position''"

section \<open>Conflict resolver (backend/src/services/conflictResolver.ts)\<close>

record ConflictAnalysis =
  mergedChanges :: "Change list"
  mergedFields :: "Field list"
  rejectedFields :: "Field list"
  hasConflict :: bool
  fullyRejected :: bool

text \<open>\<open>current[FIELD_VERSION_MAP[field]]\<close>: the stamp that belongs to a key.\<close>

fun fieldVersion :: "Task \<Rightarrow> Field \<Rightarrow> int" where
  "fieldVersion t FTitle = titleVersion t"
| "fieldVersion t FDescription = descriptionVersion t"
| "fieldVersion t FColumnId = columnVersion t"
| "fieldVersion t FPosition = positionVersion t"

text \<open>
  \<open>obj[field] = value\<close> on the object under construction: an existing key keeps its
  place and takes the new value, a new key is appended.
\<close>

fun assign :: "Change list \<Rightarrow> Change \<Rightarrow> Change list" where
  "assign [] c = [c]"
| "assign (d # ds) c = (if field_of d = field_of c then c # ds else d # assign ds c)"

text \<open>
  The \<open>for\<close> loop of \<open>analyseConflict\<close> with its three accumulators
  (mergedChanges, mergedFields, rejectedFields).
\<close>

fun analyse_loop ::
  "Task \<Rightarrow> int \<Rightarrow> Change list \<Rightarrow> Change list \<times> Field list \<times> Field list
    \<Rightarrow> Change list \<times> Field list \<times> Field list" where
  "analyse_loop current baseVersion [] acc = acc"
| "analyse_loop current baseVersion (c # cs) (mc, mf, rf) =
     (if fieldVersion current (field_of c) \<le> baseVersion
      then analyse_loop current baseVersion cs (assign mc c, mf @ [field_of c], rf)
      else analyse_loop current baseVersion cs (mc, mf, rf @ [field_of c]))"

definition analyseConflict :: "Task \<Rightarrow> int \<Rightarrow> Change list \<Rightarrow> ConflictAnalysis" where
  "analyseConflict current baseVersion changes =
     (case analyse_loop current baseVersion changes ([], [], []) of
        (mc, mf, rf) \<Rightarrow>
          \<lparr> mergedChanges = mc, mergedFields = mf, rejectedFields = rf,
            hasConflict = (length rf > 0),
            fullyRejected = (length mf = 0 \<and> length rf > 0) \<rparr>)"

text \<open>\<open>Array.prototype.join\<close> with a separator.\<close>

fun join :: "string \<Rightarrow> string list \<Rightarrow> string" where
  "join sep [] = []"
| "join sep [x] = x"
| "join sep (x # y # ys) = x @ sep @ join sep (y # ys)"

text \<open>The em dash of the two message templates, as its UTF-8 bytes.\<close>

definition em_dash :: string where
  "em_dash = [CHR 0xE2, CHR 0x80, CHR 0x94]"

definition buildResolutionReason :: "ConflictAnalysis \<Rightarrow> string" where
  "buildResolutionReason analysis =
     (if fullyRejected analysis then
        ''All changed fields ('' @ join '', '' (map field_name (rejectedFields analysis)) @
        '') were already modified by another client. Server state preserved (last-write-wins).''
      else if hasConflict analysis then
        ''Partial merge: applied ['' @ join '', '' (map field_name (mergedFields analysis)) @
        '']. Fields ['' @ join '', '' (map field_name (rejectedFields analysis)) @
        ''] conflicted '' @ em_dash @ '' server state preserved.''
      else ''No conflict '' @ em_dash @ '' changes applied cleanly.'')"

text \<open>
  A parsed JSON object has each key once: the well-formedness of a mutation.
\<close>

definition distinct_keys :: "Change list \<Rightarrow> bool" where
  "distinct_keys changes = distinct (map field_of changes)"

section \<open>Ordering constants (backend/src/services/orderingAlgorithm.ts)\<close>

definition INITIAL_STEP :: rat where
  "INITIAL_STEP = 65536"

definition MIN_GAP :: rat where
  "MIN_GAP = 1 / 2"

section \<open>Payloads and results (backend/src/types/index.ts)\<close>

record CreateTaskPayload =
  c_clientId :: string
  c_tempId :: string
  c_title :: string
  c_description :: string
  c_columnId :: Column
  c_position :: rat

record UpdateTaskPayload =
  u_clientId :: string
  u_taskId :: string
  u_baseVersion :: int
  u_changes :: "Change list"

record MoveTaskPayload =
  m_clientId :: string
  m_taskId :: string
  m_baseVersion :: int
  m_columnId :: Column
  m_position :: rat

record DeleteTaskPayload =
  d_clientId :: string
  d_taskId :: string
  d_baseVersion :: int

datatype Resolution = MERGED | REJECTED

record ConflictResolvedPayload =
  cr_taskId :: string
  cr_resolution :: Resolution
  cr_task :: Task
  cr_mergedFields :: "Field list"
  cr_rejectedFields :: "Field list"
  cr_reason :: string

text \<open>The objects returned by updateTask, moveTask and deleteTask.\<close>

record UpdateResult =
  ur_task :: Task
  ur_conflict :: "ConflictResolvedPayload option"

record MoveResult =
  mr_task :: Task
  mr_conflict :: "ConflictResolvedPayload option"
  mr_needsRebalance :: bool

record DeleteResult =
  dr_deleted :: bool
  dr_task :: "Task option"

text \<open>
  A thrown exception is a value: \<open>Error msg\<close> for \<open>new Error(msg)\<close>, and
  \<open>TypeError\<close> for reading a property of \<open>undefined\<close> (\<open>rowToTask(rows[0])\<close> on
  an empty result).
\<close>

datatype js_error = Error string | TypeError

definition not_found :: "string \<Rightarrow> js_error" where
  "not_found taskId = Error (''Task '' @ taskId @ '' not found'')"

section \<open>The tasks table (backend/src/db)\<close>

text \<open>
  The table is the list of its rows; \<open>rowToTask\<close> only renames the columns, so a row
  is kept as the \<open>Task\<close> it is converted to. Each statement is a function of the
  table: a query returns its rows, a write returns the new table and the rows of its
  \<open>RETURNING *\<close>. The trigger \<open>tasks_updated_at\<close> of the migration sets
  \<open>updated_at\<close> on every updated row. \<open>ORDER BY\<close> is a stable sort of the rows in
  table order (SQL leaves the order of equal keys open; this is the choice made here).
\<close>

type_synonym db = "Task list"

definition select_by_id :: "string \<Rightarrow> db \<Rightarrow> Task list" where
  "select_by_id taskId tbl = filter (\<lambda>r. idT r = taskId) tbl"

definition update_returning ::
  "string \<Rightarrow> (Task \<Rightarrow> Task) \<Rightarrow> string \<Rightarrow> db \<Rightarrow> db \<times> Task list" where
  "update_returning taskId f now tbl =
     (map (\<lambda>r. if idT r = taskId then (f r)\<lparr>updatedAt := now\<rparr> else r) tbl,
      map (\<lambda>r. (f r)\<lparr>updatedAt := now\<rparr>) (filter (\<lambda>r. idT r = taskId) tbl))"

definition delete_returning :: "string \<Rightarrow> db \<Rightarrow> db \<times> Task list" where
  "delete_returning taskId tbl =
     (filter (\<lambda>r. idT r \<noteq> taskId) tbl, filter (\<lambda>r. idT r = taskId) tbl)"

text \<open>
  \<open>INSERT INTO tasks (title, description, column_id, position)\<close>: the other columns
  take their defaults (a generated id, every version 1, both timestamps now).
\<close>

definition insert_returning ::
  "string \<Rightarrow> string \<Rightarrow> string \<Rightarrow> string \<Rightarrow> Column \<Rightarrow> rat \<Rightarrow> db \<Rightarrow> db \<times> Task list" where
  "insert_returning newId now ttl descr col pos tbl =
     (let row = \<lparr> idT = newId, title = ttl, description = descr, columnId = col,
                  position = pos, version = 1, titleVersion = 1, descriptionVersion = 1,
                  columnVersion = 1, positionVersion = 1, createdAt = now, updatedAt = now \<rparr>
      in (tbl @ [row], [row]))"

text \<open>
  \<open>withTransaction\<close>: BEGIN, run the body, COMMIT; on an exception ROLLBACK and
  rethrow, so the table is the one the transaction started from.
\<close>

definition withTransaction ::
  "(db \<Rightarrow> js_error + ('a \<times> db)) \<Rightarrow> db \<Rightarrow> (js_error + 'a) \<times> db" where
  "withTransaction fn tbl =
     (case fn tbl of
        Inl err \<Rightarrow> (Inl err, tbl)
      | Inr (result, tbl') \<Rightarrow> (Inr result, tbl'))"

section \<open>Task service (backend/src/services/taskService.ts)\<close>

text \<open>\<open>String.prototype.trim\<close>, on the ASCII white space characters.\<close>

definition is_space :: "char \<Rightarrow> bool" where
  "is_space c = (c \<in> set [CHR 0x09, CHR 0x0A, CHR 0x0B, CHR 0x0C, CHR 0x0D, CHR 0x20])"

definition trim :: "string \<Rightarrow> string" where
  "trim s = rev (dropWhile is_space (rev (dropWhile is_space s)))"

text \<open>\<open>payload.title.trim() || 'New Task'\<close>: the empty string is falsy.\<close>

definition title_or_default :: "string \<Rightarrow> string" where
  "title_or_default t = (if trim t = [] then ''New Task'' else trim t)"

text \<open>
  \<open>SELECT COALESCE(MAX(position), 0) FROM tasks WHERE column_id = $1\<close>, plus
  INITIAL_STEP.
\<close>

definition positionAtEnd :: "Column \<Rightarrow> db \<Rightarrow> rat" where
  "positionAtEnd col tbl =
     (let ps = map position (filter (\<lambda>r. columnId r = col) tbl)
      in (if ps = [] then 0 else Max (set ps)) + INITIAL_STEP)"

definition createTask_body ::
  "string \<Rightarrow> string \<Rightarrow> CreateTaskPayload \<Rightarrow> db \<Rightarrow> js_error + (Task \<times> db)" where
  "createTask_body newId now payload tbl =
     (let pos = (if c_position payload > 0 then c_position payload
                 else positionAtEnd (c_columnId payload) tbl);
          (tbl', rows) = insert_returning newId now (title_or_default (c_title payload))
                           (c_description payload) (c_columnId payload) pos tbl
      in case rows of
           [] \<Rightarrow> Inl TypeError
         | row # _ \<Rightarrow> Inr (row, tbl'))"

definition createTask ::
  "string \<Rightarrow> string \<Rightarrow> CreateTaskPayload \<Rightarrow> db \<Rightarrow> (js_error + Task) \<times> db" where
  "createTask newId now payload = withTransaction (createTask_body newId now payload)"

text \<open>\<open>mergedChanges.title\<close> and its three siblings: the value under a key, if any.\<close>

fun get_title :: "Change list \<Rightarrow> string option" where
  "get_title [] = None"
| "get_title (SetTitle v # cs) = Some v"
| "get_title (c # cs) = get_title cs"

fun get_description :: "Change list \<Rightarrow> string option" where
  "get_description [] = None"
| "get_description (SetDescription v # cs) = Some v"
| "get_description (c # cs) = get_description cs"

fun get_columnId :: "Change list \<Rightarrow> Column option" where
  "get_columnId [] = None"
| "get_columnId (SetColumnId v # cs) = Some v"
| "get_columnId (c # cs) = get_columnId cs"

fun get_position :: "Change list \<Rightarrow> rat option" where
  "get_position [] = None"
| "get_position (SetPosition v # cs) = Some v"
| "get_position (c # cs) = get_position cs"

definition rejected_payload :: "Task \<Rightarrow> ConflictAnalysis \<Rightarrow> ConflictResolvedPayload" where
  "rejected_payload current analysis =
     \<lparr> cr_taskId = idT current, cr_resolution = REJECTED, cr_task = current,
       cr_mergedFields = [], cr_rejectedFields = rejectedFields analysis,
       cr_reason = buildResolutionReason analysis \<rparr>"

definition merged_payload :: "Task \<Rightarrow> ConflictAnalysis \<Rightarrow> ConflictResolvedPayload" where
  "merged_payload updated analysis =
     \<lparr> cr_taskId = idT updated, cr_resolution = MERGED, cr_task = updated,
       cr_mergedFields = mergedFields analysis, cr_rejectedFields = rejectedFields analysis,
       cr_reason = buildResolutionReason analysis \<rparr>"

text \<open>
  The dynamic \<open>UPDATE\<close> of updateTask: the SET list names title and title_version
  when \<open>mergedChanges.title\<close> is defined, description and description_version when
  \<open>mergedChanges.description\<close> is, and always version.
\<close>

definition update_sets :: "Change list \<Rightarrow> int \<Rightarrow> Task \<Rightarrow> Task" where
  "update_sets merged newVersion r =
     (let r1 = (case get_title merged of
                  None \<Rightarrow> r
                | Some v \<Rightarrow> r\<lparr>title := v, titleVersion := newVersion\<rparr>);
          r2 = (case get_description merged of
                  None \<Rightarrow> r1
                | Some v \<Rightarrow> r1\<lparr>description := v, descriptionVersion := newVersion\<rparr>)
      in r2\<lparr>version := newVersion\<rparr>)"

definition updateTask_body ::
  "string \<Rightarrow> UpdateTaskPayload \<Rightarrow> db \<Rightarrow> js_error + (UpdateResult \<times> db)" where
  "updateTask_body now payload tbl =
     (case select_by_id (u_taskId payload) tbl of
        [] \<Rightarrow> Inl (not_found (u_taskId payload))
      | current # _ \<Rightarrow>
          (let analysis = analyseConflict current (u_baseVersion payload) (u_changes payload)
           in if fullyRejected analysis then
                Inr (\<lparr> ur_task = current,
                        ur_conflict = Some (rejected_payload current analysis) \<rparr>, tbl)
              else
                (let newVersion = version current + 1;
                     (tbl', rows) = update_returning (u_taskId payload)
                                      (update_sets (mergedChanges analysis) newVersion) now tbl
                 in case rows of
                      [] \<Rightarrow> Inl TypeError
                    | updated # _ \<Rightarrow>
                        Inr (\<lparr> ur_task = updated,
                                ur_conflict = (if hasConflict analysis
                                               then Some (merged_payload updated analysis)
                                               else None) \<rparr>, tbl'))))"

definition updateTask ::
  "string \<Rightarrow> UpdateTaskPayload \<Rightarrow> db \<Rightarrow> (js_error + UpdateResult) \<times> db" where
  "updateTask now payload = withTransaction (updateTask_body now payload)"

text \<open>
  The neighbour query of moveTask, run after the UPDATE:
  \<open>SELECT position FROM tasks WHERE column_id = $1 AND id != $2
     ORDER BY ABS(position - $3) ASC LIMIT 2\<close>.
\<close>

definition select_neighbours :: "Column \<Rightarrow> string \<Rightarrow> rat \<Rightarrow> db \<Rightarrow> rat list" where
  "select_neighbours col taskId pos tbl =
     take 2 (sort_key (\<lambda>p. \<bar>p - pos\<bar>)
               (map position (filter (\<lambda>r. columnId r = col \<and> idT r \<noteq> taskId) tbl)))"

definition moveTask_body ::
  "string \<Rightarrow> MoveTaskPayload \<Rightarrow> db \<Rightarrow> js_error + (MoveResult \<times> db)" where
  "moveTask_body now payload tbl =
     (case select_by_id (m_taskId payload) tbl of
        [] \<Rightarrow> Inl (not_found (m_taskId payload))
      | current # _ \<Rightarrow>
          (let changes = [SetColumnId (m_columnId payload), SetPosition (m_position payload)];
               analysis = analyseConflict current (m_baseVersion payload) changes
           in if fullyRejected analysis then
                Inr (\<lparr> mr_task = current,
                        mr_conflict = Some (rejected_payload current analysis),
                        mr_needsRebalance = False \<rparr>, tbl)
              else
                (let newVersion = version current + 1;
                     newColumnId = (case get_columnId (mergedChanges analysis) of
                                      None \<Rightarrow> columnId current | Some c \<Rightarrow> c);
                     newPosition = (case get_position (mergedChanges analysis) of
                                      None \<Rightarrow> position current | Some p \<Rightarrow> p);
                     (tbl', rows) = update_returning (m_taskId payload)
                                      (\<lambda>r. r\<lparr> columnId := newColumnId, position := newPosition,
                                              columnVersion := newVersion,
                                              positionVersion := newVersion,
                                              version := newVersion \<rparr>) now tbl
                 in case rows of
                      [] \<Rightarrow> Inl TypeError
                    | updated # _ \<Rightarrow>
                        (let neighbours = select_neighbours newColumnId (m_taskId payload)
                                            newPosition tbl';
                             needsRebalance = list_ex (\<lambda>n. \<bar>n - newPosition\<bar> < MIN_GAP)
                                                neighbours
                         in Inr (\<lparr> mr_task = updated,
                                    mr_conflict = (if hasConflict analysis
                                                   then Some (merged_payload updated analysis)
                                                   else None),
                                    mr_needsRebalance = needsRebalance \<rparr>, tbl')))))"

definition moveTask ::
  "string \<Rightarrow> MoveTaskPayload \<Rightarrow> db \<Rightarrow> (js_error + MoveResult) \<times> db" where
  "moveTask now payload = withTransaction (moveTask_body now payload)"

definition deleteTask_body ::
  "DeleteTaskPayload \<Rightarrow> db \<Rightarrow> js_error + (DeleteResult \<times> db)" where
  "deleteTask_body payload tbl =
     (let (tbl', rows) = delete_returning (d_taskId payload) tbl
      in case rows of
           [] \<Rightarrow> Inr (\<lparr> dr_deleted = False, dr_task = None \<rparr>, tbl')
         | row # _ \<Rightarrow> Inr (\<lparr> dr_deleted = True, dr_task = Some row \<rparr>, tbl'))"

definition deleteTask :: "DeleteTaskPayload \<Rightarrow> db \<Rightarrow> (js_error + DeleteResult) \<times> db" where
  "deleteTask payload = withTransaction (deleteTask_body payload)"

section \<open>Column rebalance (backend/src/services/orderingService.ts)\<close>

text \<open>
  \<open>SELECT * FROM tasks WHERE column_id = $1 ORDER BY position FOR UPDATE\<close>, then the
  loop over the rows read: row \<open>i\<close> gets position \<open>(i + 1) * INITIAL_STEP\<close> and the
  version after the one read, written to version and position_version.
\<close>

definition select_column :: "Column \<Rightarrow> db \<Rightarrow> Task list" where
  "select_column col tbl = sort_key position (filter (\<lambda>r. columnId r = col) tbl)"

fun rebalance_loop ::
  "string \<Rightarrow> Task list \<Rightarrow> nat \<Rightarrow> Task list \<Rightarrow> db \<Rightarrow> js_error + (Task list \<times> db)" where
  "rebalance_loop now [] i updates tbl = Inr (updates, tbl)"
| "rebalance_loop now (row # existingRows) i updates tbl =
     (let newPos = of_nat (i + 1) * INITIAL_STEP;
          newVersion = version row + 1;
          (tbl', rows) = update_returning (idT row)
                           (\<lambda>r. r\<lparr> position := newPos, version := newVersion,
                                   positionVersion := newVersion \<rparr>) now tbl
      in case rows of
           [] \<Rightarrow> Inl TypeError
         | updated # _ \<Rightarrow> rebalance_loop now existingRows (i + 1) (updates @ [updated]) tbl')"

definition rebalanceColumn_body :: "string \<Rightarrow> Column \<Rightarrow> db \<Rightarrow> js_error + (Task list \<times> db)" where
  "rebalanceColumn_body now col tbl = rebalance_loop now (select_column col tbl) 0 [] tbl"

definition rebalanceColumn :: "string \<Rightarrow> Column \<Rightarrow> db \<Rightarrow> (js_error + Task list) \<times> db" where
  "rebalanceColumn now col = withTransaction (rebalanceColumn_body now col)"

section \<open>In-memory store (backend/src/db/memoryStore.ts)\<close>


fun set_stamp :: "Field \<Rightarrow> int \<Rightarrow> Task \<Rightarrow> Task" where
  "set_stamp FTitle v t = t\<lparr>titleVersion := v\<rparr>"
| "set_stamp FDescription v t = t\<lparr>descriptionVersion := v\<rparr>"
| "set_stamp FColumnId v t = t\<lparr>columnVersion := v\<rparr>"
| "set_stamp FPosition v t = t\<lparr>positionVersion := v\<rparr>"

fun bump_fields :: "Field list \<Rightarrow> int \<Rightarrow> Task \<Rightarrow> Task" where
  "bump_fields [] newVersion updated = updated"
| "bump_fields (f # fs) newVersion updated = bump_fields fs newVersion (set_stamp f newVersion updated)"

definition bumpVersion :: "string \<Rightarrow> Task \<Rightarrow> Field list \<Rightarrow> Task" where
  "bumpVersion now task fieldList =
     (let newVersion = version task + 1;
          updated = task\<lparr>version := newVersion, updatedAt := now\<rparr>
      in bump_fields fieldList newVersion updated)"

text \<open>\<open>Array.prototype.findIndex\<close>; \<open>None\<close> stands for \<open>-1\<close>.\<close>

fun findIndex :: "('a \<Rightarrow> bool) \<Rightarrow> 'a list \<Rightarrow> nat option" where
  "findIndex P [] = None"
| "findIndex P (x # xs) =
     (if P x then Some 0 else (case findIndex P xs of None \<Rightarrow> None | Some i \<Rightarrow> Some (Suc i)))"





definition mem_moveTask ::
  "string \<Rightarrow> MoveTaskPayload \<Rightarrow> Task list \<Rightarrow> (js_error + MoveResult) \<times> Task list" where
  "mem_moveTask now payload tasks =
     (case findIndex (\<lambda>t. idT t = m_taskId payload) tasks of
        None \<Rightarrow> (Inl (not_found (m_taskId payload)), tasks)
      | Some idx \<Rightarrow>
          (let current = tasks ! idx;
               changes = [SetColumnId (m_columnId payload), SetPosition (m_position payload)];
               analysis = analyseConflict current (m_baseVersion payload) changes
           in if fullyRejected analysis then
                (Inr \<lparr> mr_task = current,
                       mr_conflict = Some (rejected_payload current analysis),
                       mr_needsRebalance = False \<rparr>, tasks)
              else
                (let newColumnId = (case get_columnId (mergedChanges analysis) of
                                      None \<Rightarrow> columnId current | Some c \<Rightarrow> c);
                     newPosition = (case get_position (mergedChanges analysis) of
                                      None \<Rightarrow> position current | Some p \<Rightarrow> p);
                     updated = (bumpVersion now current [FColumnId, FPosition])
                                 \<lparr>columnId := newColumnId, position := newPosition\<rparr>;
                     tasks' = tasks[idx := updated];
                     neighbours = map (\<lambda>t. \<bar>position t - newPosition\<bar>)
                                    (filter (\<lambda>t. columnId t = newColumnId \<and> idT t \<noteq> idT updated)
                                       tasks');
                     needsRebalance = list_ex (\<lambda>d. d < MIN_GAP) neighbours
                 in (Inr \<lparr> mr_task = updated,
                           mr_conflict = (if hasConflict analysis
                                          then Some (merged_payload updated analysis)
                                          else None),
                           mr_needsRebalance = needsRebalance \<rparr>,
                     tasks'))))"




section \<open>Presence manager and broadcaster (backend/src/websocket)\<close>

record PresenceUser =
  p_clientId :: string
  p_username :: string
  p_color :: string
  p_viewingTask :: "string option"
  p_editingTask :: "string option"
  p_connectedAt :: string

record PresenceUpdatePayload =
  pu_clientId :: string
  pu_username :: string
  pu_viewingTask :: "string option"
  pu_editingTask :: "string option"

record ErrorPayload =
  e_code :: string
  e_message :: string
  e_taskId :: "string option"

datatype ServerMessage =
    INITIAL_STATE "Task list" "PresenceUser list"
  | TASK_CREATED Task string
  | TASK_UPDATED Task
  | TASK_DELETED string
  | TASK_MOVED Task
  | CONFLICT_RESOLVED ConflictResolvedPayload
  | REBALANCED Column "Task list"
  | PRESENCE_UPDATE "PresenceUser list"
  | ERROR ErrorPayload

text \<open>
  The two module maps keep their keys in insertion order, so each is an association
  list with every key once. A connection is known by its \<open>readyState\<close>. What the
  server sends is the list of the \<open>ws.send\<close> calls made, each with the client it
  goes to.
\<close>

datatype ReadyState = CONNECTING | OPEN | CLOSING | CLOSED

type_synonym connections = "(string \<times> ReadyState) list"

type_synonym deliveries = "(string \<times> ServerMessage) list"

definition sendTo :: "string \<Rightarrow> ServerMessage \<Rightarrow> connections \<Rightarrow> deliveries" where
  "sendTo clientId message conns =
     (case map_of conns clientId of
        Some ws \<Rightarrow> (if ws = OPEN then [(clientId, message)] else [])
      | None \<Rightarrow> [])"

fun broadcast :: "ServerMessage \<Rightarrow> string option \<Rightarrow> connections \<Rightarrow> deliveries" where
  "broadcast message skipClientId [] = []"
| "broadcast message skipClientId ((clientId, ws) # conns) =
     (if Some clientId = skipClientId then broadcast message skipClientId conns
      else if ws = OPEN then (clientId, message) # broadcast message skipClientId conns
      else broadcast message skipClientId conns)"

definition broadcastAll :: "ServerMessage \<Rightarrow> connections \<Rightarrow> deliveries" where
  "broadcastAll message conns = broadcast message None conns"

type_synonym presence = "(string \<times> PresenceUser) list"

definition getAllUsers :: "presence \<Rightarrow> PresenceUser list" where
  "getAllUsers presenceMap = map snd presenceMap"

text \<open>
  \<open>updateUser\<close>: the three keys of the update object overwrite the entry (a key
  whose value is undefined too); an unknown client changes nothing.
\<close>

definition updateUser :: "string \<Rightarrow> PresenceUpdatePayload \<Rightarrow> presence \<Rightarrow> presence" where
  "updateUser clientId payload presenceMap =
     (case map_of presenceMap clientId of
        None \<Rightarrow> presenceMap
      | Some user \<Rightarrow>
          map (\<lambda>(k, u). if k = clientId
                         then (k, user\<lparr> p_viewingTask := pu_viewingTask payload,
                                        p_editingTask := pu_editingTask payload,
                                        p_username := pu_username payload \<rparr>)
                         else (k, u)) presenceMap)"

section \<open>Message router (backend/src/websocket/messageRouter.ts)\<close>

text \<open>
  The messages a client sends. The operations an offline queue may hold are the four
  task operations; a frame that is no JSON, and a type the router does not know, are
  inputs too.
\<close>

datatype Operation =
    CREATE_TASK CreateTaskPayload
  | UPDATE_TASK UpdateTaskPayload
  | DELETE_TASK DeleteTaskPayload
  | MOVE_TASK MoveTaskPayload

datatype ClientMessage =
    TaskOp Operation
  | PRESENCE_UPDATE_REQUEST PresenceUpdatePayload
  | SYNC_REQUEST
  | REPLAY_QUEUE "Operation list"
  | UnknownType string

datatype Frame = InvalidJson | Parsed ClientMessage

record Server =
  srv_tasks :: db
  srv_connections :: connections
  srv_presence :: presence

text \<open>
  What the database supplies to one handler run: the generated id of an insert, the
  time of the handler's transaction, and the time of the rebalance transaction that
  may follow a move.
\<close>

record Env =
  env_newId :: string
  env_now :: string
  env_now2 :: string

text \<open>\<open>SELECT * FROM tasks ORDER BY column_id, position\<close>; the column ids sort as text.\<close>

fun column_rank :: "Column \<Rightarrow> nat" where
  "column_rank Done = 0"
| "column_rank InProgress = 1"
| "column_rank Todo = 2"

definition getAllTasks :: "db \<Rightarrow> Task list" where
  "getAllTasks tbl = sort_key (\<lambda>r. column_rank (columnId r)) (sort_key position tbl)"

text \<open>
  A handler returns the exception it ends with (if any), the server state, and what
  it sent before.
\<close>

type_synonym outcome = "js_error option \<times> Server \<times> deliveries"

definition handleSyncRequest :: "string \<Rightarrow> Server \<Rightarrow> outcome" where
  "handleSyncRequest clientId srv =
     (None, srv,
      sendTo clientId (INITIAL_STATE (getAllTasks (srv_tasks srv))
                         (getAllUsers (srv_presence srv))) (srv_connections srv))"

definition handleCreateTask :: "Env \<Rightarrow> string \<Rightarrow> CreateTaskPayload \<Rightarrow> Server \<Rightarrow> outcome" where
  "handleCreateTask env clientId payload srv =
     (case createTask (env_newId env) (env_now env) payload (srv_tasks srv) of
        (Inl err, tbl) \<Rightarrow> (Some err, srv\<lparr>srv_tasks := tbl\<rparr>, [])
      | (Inr task, tbl) \<Rightarrow>
          (None, srv\<lparr>srv_tasks := tbl\<rparr>,
           broadcastAll (TASK_CREATED task (c_tempId payload)) (srv_connections srv)))"

text \<open>
  \<open>conflict?.resolution === r\<close>, and the \<open>sendTo\<close> of a CONFLICT_RESOLVED message
  that follows such a test.
\<close>

definition resolution_is :: "ConflictResolvedPayload option \<Rightarrow> Resolution \<Rightarrow> bool" where
  "resolution_is conflict r =
     (case conflict of None \<Rightarrow> False | Some c \<Rightarrow> cr_resolution c = r)"

definition send_conflict ::
  "string \<Rightarrow> ConflictResolvedPayload option \<Rightarrow> connections \<Rightarrow> deliveries" where
  "send_conflict clientId conflict conns =
     (case conflict of None \<Rightarrow> [] | Some c \<Rightarrow> sendTo clientId (CONFLICT_RESOLVED c) conns)"

definition handleUpdateTask :: "Env \<Rightarrow> string \<Rightarrow> UpdateTaskPayload \<Rightarrow> Server \<Rightarrow> outcome" where
  "handleUpdateTask env clientId payload srv =
     (case updateTask (env_now env) payload (srv_tasks srv) of
        (Inl err, tbl) \<Rightarrow> (Some err, srv\<lparr>srv_tasks := tbl\<rparr>, [])
      | (Inr result, tbl) \<Rightarrow>
          (let task = ur_task result; conflict = ur_conflict result;
               conns = srv_connections srv
           in if resolution_is conflict REJECTED then
                (None, srv\<lparr>srv_tasks := tbl\<rparr>,
                 send_conflict clientId conflict conns @
                 broadcast (TASK_UPDATED task) None conns)
              else
                (None, srv\<lparr>srv_tasks := tbl\<rparr>,
                 (if resolution_is conflict MERGED
                  then send_conflict clientId conflict conns else []) @
                 broadcastAll (TASK_UPDATED task) conns)))"

definition handleMoveTask :: "Env \<Rightarrow> string \<Rightarrow> MoveTaskPayload \<Rightarrow> Server \<Rightarrow> outcome" where
  "handleMoveTask env clientId payload srv =
     (case moveTask (env_now env) payload (srv_tasks srv) of
        (Inl err, tbl) \<Rightarrow> (Some err, srv\<lparr>srv_tasks := tbl\<rparr>, [])
      | (Inr result, tbl) \<Rightarrow>
          (let task = mr_task result; conflict = mr_conflict result;
               conns = srv_connections srv
           in if resolution_is conflict REJECTED then
                (None, srv\<lparr>srv_tasks := tbl\<rparr>,
                 send_conflict clientId conflict conns @
                 broadcast (TASK_MOVED task) None conns)
              else
                (let sent = (if resolution_is conflict MERGED
                             then send_conflict clientId conflict conns else []) @
                            broadcastAll (TASK_MOVED task) conns
                 in if mr_needsRebalance result then
                      (case rebalanceColumn (env_now2 env) (columnId task) tbl of
                         (Inl err, tbl2) \<Rightarrow> (Some err, srv\<lparr>srv_tasks := tbl2\<rparr>, sent)
                       | (Inr updatedTasks, tbl2) \<Rightarrow>
                           (None, srv\<lparr>srv_tasks := tbl2\<rparr>,
                            sent @ broadcastAll (REBALANCED (columnId task) updatedTasks) conns))
                    else (None, srv\<lparr>srv_tasks := tbl\<rparr>, sent))))"

definition handleDeleteTask :: "string \<Rightarrow> DeleteTaskPayload \<Rightarrow> Server \<Rightarrow> outcome" where
  "handleDeleteTask clientId payload srv =
     (case deleteTask payload (srv_tasks srv) of
        (Inl err, tbl) \<Rightarrow> (Some err, srv\<lparr>srv_tasks := tbl\<rparr>, [])
      | (Inr result, tbl) \<Rightarrow>
          (if \<not> dr_deleted result then
             (None, srv\<lparr>srv_tasks := tbl\<rparr>,
              sendTo clientId
                (ERROR \<lparr> e_code = ''NOT_FOUND'',
                         e_message = ''Task '' @ d_taskId payload @ '' not found'',
                         e_taskId = Some (d_taskId payload) \<rparr>) (srv_connections srv))
           else
             (None, srv\<lparr>srv_tasks := tbl\<rparr>,
              broadcastAll (TASK_DELETED (d_taskId payload)) (srv_connections srv))))"

definition handlePresenceUpdate :: "string \<Rightarrow> PresenceUpdatePayload \<Rightarrow> Server \<Rightarrow> outcome" where
  "handlePresenceUpdate clientId payload srv =
     (let presenceMap = updateUser clientId payload (srv_presence srv)
      in (None, srv\<lparr>srv_presence := presenceMap\<rparr>,
          broadcastAll (PRESENCE_UPDATE (getAllUsers presenceMap)) (srv_connections srv)))"

text \<open>\<open>err.message\<close> of what the service throws.\<close>

fun error_message :: "js_error \<Rightarrow> string" where
  "error_message (Error msg) = msg"
| "error_message TypeError = ''Cannot read properties of undefined''"

text \<open>
  The \<open>catch\<close> of handleMessage: an exception of a handler becomes an ERROR message
  with code INTERNAL_ERROR and no taskId, sent to the sender after what the handler
  had sent.
\<close>

definition catch_internal :: "string \<Rightarrow> outcome \<Rightarrow> Server \<times> deliveries" where
  "catch_internal clientId out =
     (case out of
        (None, srv, sent) \<Rightarrow> (srv, sent)
      | (Some err, srv, sent) \<Rightarrow>
          (srv, sent @ sendTo clientId
                         (ERROR \<lparr> e_code = ''INTERNAL_ERROR'', e_message = error_message err,
                                  e_taskId = None \<rparr>) (srv_connections srv)))"

text \<open>The cases of the \<open>switch\<close> for the four task operations.\<close>

fun dispatch_operation :: "Env \<Rightarrow> string \<Rightarrow> Operation \<Rightarrow> Server \<Rightarrow> outcome" where
  "dispatch_operation env clientId (CREATE_TASK payload) srv = handleCreateTask env clientId payload srv"
| "dispatch_operation env clientId (UPDATE_TASK payload) srv = handleUpdateTask env clientId payload srv"
| "dispatch_operation env clientId (DELETE_TASK payload) srv = handleDeleteTask clientId payload srv"
| "dispatch_operation env clientId (MOVE_TASK payload) srv = handleMoveTask env clientId payload srv"

text \<open>
  \<open>handleReplayQueue\<close> sends each queued operation through handleMessage again, which
  catches that operation's exception itself; operation \<open>k\<close> of the queue runs with
  \<open>envs k\<close>.
\<close>

fun handleReplayQueue ::
  "(nat \<Rightarrow> Env) \<Rightarrow> nat \<Rightarrow> string \<Rightarrow> Operation list \<Rightarrow> Server \<Rightarrow> Server \<times> deliveries" where
  "handleReplayQueue envs k clientId [] srv = (srv, [])"
| "handleReplayQueue envs k clientId (op # ops) srv =
     (case catch_internal clientId (dispatch_operation (envs k) clientId op srv) of
        (srv1, sent1) \<Rightarrow>
          (case handleReplayQueue envs (Suc k) clientId ops srv1 of
             (srv2, sent2) \<Rightarrow> (srv2, sent1 @ sent2)))"

fun handleMessage :: "(nat \<Rightarrow> Env) \<Rightarrow> string \<Rightarrow> Frame \<Rightarrow> Server \<Rightarrow> Server \<times> deliveries" where
  "handleMessage envs clientId InvalidJson srv =
     (srv, sendTo clientId
             (ERROR \<lparr> e_code = ''INVALID_JSON'', e_message = ''Message must be valid JSON'',
                      e_taskId = None \<rparr>) (srv_connections srv))"
| "handleMessage envs clientId (Parsed SYNC_REQUEST) srv =
     catch_internal clientId (handleSyncRequest clientId srv)"
| "handleMessage envs clientId (Parsed (TaskOp op)) srv =
     catch_internal clientId (dispatch_operation (envs 0) clientId op srv)"
| "handleMessage envs clientId (Parsed (PRESENCE_UPDATE_REQUEST payload)) srv =
     catch_internal clientId (handlePresenceUpdate clientId payload srv)"
| "handleMessage envs clientId (Parsed (REPLAY_QUEUE ops)) srv =
     handleReplayQueue envs 0 clientId ops srv"
| "handleMessage envs clientId (Parsed (UnknownType ty)) srv =
     (srv, sendTo clientId
             (ERROR \<lparr> e_code = ''UNKNOWN_MESSAGE_TYPE'',
                      e_message = ''Unknown message type: '' @ ty, e_taskId = None \<rparr>)
             (srv_connections srv))"

section \<open>Vocabulary of the claims\<close>


section \<open>Example rows and payloads\<close>

text \<open>
  Concrete inputs on which the theorems below are instantiated: the task of the unit
  tests after a title edit at version 6, a second task of the same column, and the
  payloads of three clients that last saw an older version.
\<close>

definition row_v6 :: Task where
  "row_v6 = \<lparr> idT = ''task-1'', title = ''Original Title'',
       description = ''Original description'', columnId = Todo, position = 65536,
       version = 6, titleVersion = 6, descriptionVersion = 3, columnVersion = 4,
       positionVersion = 4, createdAt = ''t0'', updatedAt = ''t5'' \<rparr>"

definition row_other :: Task where
  "row_other = \<lparr> idT = ''task-2'', title = ''Other'', description = '''',
       columnId = Todo, position = 131072, version = 1, titleVersion = 1,
       descriptionVersion = 1, columnVersion = 1, positionVersion = 1,
       createdAt = ''t1'', updatedAt = ''t1'' \<rparr>"

definition edit_both :: UpdateTaskPayload where
  "edit_both = \<lparr> u_clientId = ''B'', u_taskId = ''task-1'', u_baseVersion = 5,
       u_changes = [SetTitle ''B title'', SetDescription ''B description''] \<rparr>"

definition edit_title :: UpdateTaskPayload where
  "edit_title = \<lparr> u_clientId = ''B'', u_taskId = ''task-1'', u_baseVersion = 5,
       u_changes = [SetTitle ''B title''] \<rparr>"

definition move_stale :: MoveTaskPayload where
  "move_stale = \<lparr> m_clientId = ''B'', m_taskId = ''task-1'', m_baseVersion = 3,
       m_columnId = Done, m_position = 100000 \<rparr>"

definition create_first :: CreateTaskPayload where
  "create_first = \<lparr> c_clientId = ''A'', c_tempId = ''tmp-1'', c_title = ''Task'',
       c_description = [], c_columnId = Todo, c_position = 65536 \<rparr>"

definition row_rebalanced :: Task where
  "row_rebalanced = \<lparr> idT = ''task-1'', title = ''Task'', description = [],
       columnId = Todo, position = 65536, version = 2, titleVersion = 1,
       descriptionVersion = 1, columnVersion = 1, positionVersion = 2,
       createdAt = ''t1'', updatedAt = ''t2'' \<rparr>"

definition move_base1 :: MoveTaskPayload where
  "move_base1 = \<lparr> m_clientId = ''B'', m_taskId = ''task-1'', m_baseVersion = 1,
       m_columnId = Done, m_position = 5 \<rparr>"

definition open_clients :: "connections \<Rightarrow> string list" where
  "open_clients conns = map fst (filter (\<lambda>(clientId, ws). ws = OPEN) conns)"

definition env_const :: "nat \<Rightarrow> Env" where
  "env_const k = \<lparr> env_newId = ''task-9'', env_now = ''t6'', env_now2 = ''t7'' \<rparr>"

definition server_ab :: Server where
  "server_ab = \<lparr> srv_tasks = [row_v6, row_other],
                   srv_connections = [(''A'', OPEN), (''B'', OPEN), (''C'', CLOSING)],
                   srv_presence = [] \<rparr>"

definition edit_missing :: UpdateTaskPayload where
  "edit_missing = \<lparr> u_clientId = ''A'', u_taskId = ''task-404'', u_baseVersion = 1,
       u_changes = [SetTitle ''x''] \<rparr>"

definition move_missing :: MoveTaskPayload where
  "move_missing = \<lparr> m_clientId = ''A'', m_taskId = ''task-404'', m_baseVersion = 1,
       m_columnId = Done, m_position = 65536 \<rparr>"

definition delete_missing :: DeleteTaskPayload where
  "delete_missing = \<lparr> d_clientId = ''A'', d_taskId = ''task-404'', d_baseVersion = 1 \<rparr>"





section \<open>Sequences of store operations\<close>










section \<open>The position invariant\<close>









section \<open>Fractional indexing on binary64 numbers (backend/src/services/orderingAlgorithm.ts)\<close>

text \<open>
  \<open>positionBetween\<close> computes with JavaScript numbers, that is with IEEE-754 binary64
  values, and what it returns depends on how the midpoint is rounded. It is therefore
  modelled on binary64 itself rather than on exact rationals. A finite number is the
  rational it denotes; \<open>round_f64\<close> is the rounding every arithmetic operation applies
  to its exact result: to the nearest value with a 53-bit significand, ties to the even
  significand, with gradual underflow (exponent at least \<open>-1022\<close>) and overflow to
  infinity. Negative zero is identified with zero: the operations used here,
  \<open>+\<close>, \<open>-\<close>, \<open>/ 2\<close> and \<open><\<close>, treat them alike.

  \<open>ilog2 n\<close> is the position of the leading bit of \<open>n\<close> and \<open>floor_log2 x\<close> the binary
  exponent of a non-zero rational \<open>x\<close>.
\<close>

fun ilog2 :: "nat \<Rightarrow> nat" where
  "ilog2 n = (if n < 2 then 0 else Suc (ilog2 (n div 2)))"

declare ilog2.simps [simp del]

definition floor_log2 :: "rat \<Rightarrow> int" where
  "floor_log2 x =
     (case quotient_of \<bar>x\<bar> of
        (p, q) \<Rightarrow>
          (let e0 = int (ilog2 (nat p)) - int (ilog2 (nat q))
           in if 2 powi e0 \<le> \<bar>x\<bar> then e0 else e0 - 1))"

text \<open>Rounding to the nearest integer, a tie going to the even one.\<close>

definition round_half_even :: "rat \<Rightarrow> int" where
  "round_half_even y =
     (let f = \<lfloor>y\<rfloor>; d = y - of_int f
      in if d < 1 / 2 then f else if d > 1 / 2 then f + 1
         else if even f then f else f + 1)"

datatype f64 = Finite rat | PosInf | NegInf | NaN

definition round_f64 :: "rat \<Rightarrow> f64" where
  "round_f64 x =
     (if x = 0 then Finite 0
      else (let e = max (floor_log2 x) (- 1022);
                q = 2 powi (e - 52);
                y = of_int (round_half_even (x / q)) * q
            in if \<bar>y\<bar> \<ge> 2 powi 1024 then (if x > 0 then PosInf else NegInf)
               else Finite y))"

text \<open>The rationals that are binary64 values.\<close>

definition is_f64 :: "rat \<Rightarrow> bool" where
  "is_f64 x = (round_f64 x = Finite x)"

text \<open>
  Addition, negation, subtraction, halving \<open>x / 2\<close> and the comparison \<open>x < y\<close>, with
  the usual rules for infinities and NaN.
\<close>

fun f64_add :: "f64 \<Rightarrow> f64 \<Rightarrow> f64" where
  "f64_add (Finite x) (Finite y) = round_f64 (x + y)"
| "f64_add NaN _ = NaN"
| "f64_add _ NaN = NaN"
| "f64_add PosInf NegInf = NaN"
| "f64_add NegInf PosInf = NaN"
| "f64_add PosInf _ = PosInf"
| "f64_add _ PosInf = PosInf"
| "f64_add NegInf _ = NegInf"
| "f64_add _ NegInf = NegInf"

fun f64_neg :: "f64 \<Rightarrow> f64" where
  "f64_neg (Finite x) = Finite (- x)"
| "f64_neg PosInf = NegInf"
| "f64_neg NegInf = PosInf"
| "f64_neg NaN = NaN"

definition f64_sub :: "f64 \<Rightarrow> f64 \<Rightarrow> f64" where
  "f64_sub a b = f64_add a (f64_neg b)"

fun f64_half :: "f64 \<Rightarrow> f64" where
  "f64_half (Finite x) = round_f64 (x / 2)"
| "f64_half v = v"

fun f64_lt :: "f64 \<Rightarrow> f64 \<Rightarrow> bool" where
  "f64_lt (Finite x) (Finite y) = (x < y)"
| "f64_lt NaN _ = False"
| "f64_lt _ NaN = False"
| "f64_lt NegInf NegInf = False"
| "f64_lt NegInf _ = True"
| "f64_lt PosInf _ = False"
| "f64_lt _ PosInf = True"
| "f64_lt _ NegInf = False"

text \<open>
  \<open>positionBetween\<close>, clause by clause; \<open>null\<close> is \<open>None\<close>, both for an absent
  neighbour and for the exhausted result.
\<close>

fun positionBetween :: "f64 option \<Rightarrow> f64 option \<Rightarrow> f64 option" where
  "positionBetween None None = Some (Finite INITIAL_STEP)"
| "positionBetween None (Some afterPosition) =
     (let pos = f64_half afterPosition
      in if f64_lt pos (Finite MIN_GAP) then None else Some pos)"
| "positionBetween (Some beforePosition) None =
     Some (f64_add beforePosition (Finite INITIAL_STEP))"
| "positionBetween (Some beforePosition) (Some afterPosition) =
     (let gap = f64_sub afterPosition beforePosition
      in if f64_lt gap (Finite MIN_GAP) then None
         else Some (f64_add beforePosition (f64_half gap)))"

section \<open>Properties of the conflict resolver\<close>

lemma assign_fresh:
  "field_of c \<notin> field_of ` set mc \<Longrightarrow> assign mc c = mc @ [c]"
  by (induction mc) auto

lemma analyse_loop_filter:
  "distinct (map field_of cs) \<Longrightarrow>
   field_of ` set mc \<inter> field_of ` set cs = {} \<Longrightarrow>
   analyse_loop current b cs (mc, mf, rf) =
     (mc @ filter (\<lambda>c. fieldVersion current (field_of c) \<le> b) cs,
      mf @ map field_of (filter (\<lambda>c. fieldVersion current (field_of c) \<le> b) cs),
      rf @ map field_of (filter (\<lambda>c. \<not> fieldVersion current (field_of c) \<le> b) cs))"
proof (induction cs arbitrary: mc mf rf)
  case Nil
  then show ?case by simp
next
  case (Cons c cs)
  have fresh: "field_of c \<notin> field_of ` set mc"
    using Cons.prems(2) by auto
  have d: "distinct (map field_of cs)"
    using Cons.prems(1) by simp
  show ?case
  proof (cases "fieldVersion current (field_of c) \<le> b")
    case True
    have disj: "field_of ` set (mc @ [c]) \<inter> field_of ` set cs = {}"
      using Cons.prems by auto
    show ?thesis
      using True Cons.IH [OF d disj] by (simp add: assign_fresh [OF fresh])
  next
    case False
    have disj: "field_of ` set mc \<inter> field_of ` set cs = {}"
      using Cons.prems(2) by auto
    show ?thesis
      using False Cons.IH [OF d disj] by simp
  qed
qed

lemma analyseConflict_filter:
  assumes "distinct_keys changes"
  shows "mergedChanges (analyseConflict current b changes)
           = filter (\<lambda>c. fieldVersion current (field_of c) \<le> b) changes"
    and "mergedFields (analyseConflict current b changes)
           = map field_of (filter (\<lambda>c. fieldVersion current (field_of c) \<le> b) changes)"
    and "rejectedFields (analyseConflict current b changes)
           = map field_of (filter (\<lambda>c. \<not> fieldVersion current (field_of c) \<le> b) changes)"
    and "hasConflict (analyseConflict current b changes)
           = (rejectedFields (analyseConflict current b changes) \<noteq> [])"
    and "fullyRejected (analyseConflict current b changes)
           = (mergedFields (analyseConflict current b changes) = [] \<and>
              rejectedFields (analyseConflict current b changes) \<noteq> [])"
  using assms analyse_loop_filter [of changes "[]" current b "[]" "[]"]
  by (simp_all add: analyseConflict_def distinct_keys_def)

text \<open>
  Claim C1. For every task row \<open>current\<close>, every base version and every mutation
  (an object, so each key occurs once): an entry is copied to mergedChanges, and its
  key listed in mergedFields, exactly when the stamp of its key in \<open>current\<close> is at
  most the base version; otherwise its key is listed in rejectedFields and its value
  is dropped. Nothing else enters the three collections, no key is in both lists,
  hasConflict says that rejectedFields is non-empty, and fullyRejected says that
  mergedFields is empty while rejectedFields is not.
\<close>

theorem analyseConflict_spec:
  assumes "distinct_keys changes"
  shows "(\<forall>c \<in> set changes.
           (c \<in> set (mergedChanges (analyseConflict current baseVersion changes))
              \<longleftrightarrow> fieldVersion current (field_of c) \<le> baseVersion) \<and>
           (field_of c \<in> set (mergedFields (analyseConflict current baseVersion changes))
              \<longleftrightarrow> fieldVersion current (field_of c) \<le> baseVersion) \<and>
           (field_of c \<in> set (rejectedFields (analyseConflict current baseVersion changes))
              \<longleftrightarrow> \<not> fieldVersion current (field_of c) \<le> baseVersion)) \<and>
         set (mergedChanges (analyseConflict current baseVersion changes)) \<subseteq> set changes \<and>
         map field_of (mergedChanges (analyseConflict current baseVersion changes))
           = mergedFields (analyseConflict current baseVersion changes) \<and>
         set (mergedFields (analyseConflict current baseVersion changes))
           \<union> set (rejectedFields (analyseConflict current baseVersion changes))
           = field_of ` set changes \<and>
         set (mergedFields (analyseConflict current baseVersion changes))
           \<inter> set (rejectedFields (analyseConflict current baseVersion changes)) = {} \<and>
         (hasConflict (analyseConflict current baseVersion changes)
           \<longleftrightarrow> rejectedFields (analyseConflict current baseVersion changes) \<noteq> []) \<and>
         (fullyRejected (analyseConflict current baseVersion changes)
           \<longleftrightarrow> mergedFields (analyseConflict current baseVersion changes) = [] \<and>
               rejectedFields (analyseConflict current baseVersion changes) \<noteq> [])"
proof -
  let ?ok = "\<lambda>c. fieldVersion current (field_of c) \<le> baseVersion"
  note eqs = analyseConflict_filter [OF assms, of current baseVersion]
  have inj: "inj_on field_of (set changes)"
    using assms by (simp add: distinct_keys_def distinct_map)
  have key: "field_of c \<in> field_of ` {x \<in> set changes. P x} \<longleftrightarrow> P c"
    if "c \<in> set changes" for c and P :: "Change \<Rightarrow> bool"
    using that inj by (auto dest: inj_onD)
  have 1: "\<forall>c \<in> set changes.
           (c \<in> set (mergedChanges (analyseConflict current baseVersion changes))
              \<longleftrightarrow> ?ok c) \<and>
           (field_of c \<in> set (mergedFields (analyseConflict current baseVersion changes))
              \<longleftrightarrow> ?ok c) \<and>
           (field_of c \<in> set (rejectedFields (analyseConflict current baseVersion changes))
              \<longleftrightarrow> \<not> ?ok c)"
    by (simp add: eqs(1,2,3) key)
  have 2: "set (mergedChanges (analyseConflict current baseVersion changes)) \<subseteq> set changes"
    by (auto simp: eqs(1))
  have 3: "map field_of (mergedChanges (analyseConflict current baseVersion changes))
           = mergedFields (analyseConflict current baseVersion changes)"
    by (simp add: eqs(1,2))
  have 4: "set (mergedFields (analyseConflict current baseVersion changes))
           \<union> set (rejectedFields (analyseConflict current baseVersion changes))
           = field_of ` set changes"
    by (auto simp: eqs(2,3))
  have 5: "set (mergedFields (analyseConflict current baseVersion changes))
           \<inter> set (rejectedFields (analyseConflict current baseVersion changes)) = {}"
    using inj by (auto simp: eqs(2,3) dest: inj_onD)
  show ?thesis
    using 1 2 3 4 5 eqs(4) eqs(5) by blast
qed

text \<open>
  The partial merge of the unit tests: the title was rewritten at version 6, the
  description last at version 3, and a client that saw version 5 changes both.
\<close>

theorem analyseConflict_spec_witness:
  "distinct_keys [SetTitle ''B title'', SetDescription ''B description''] \<and>
   analyseConflict
     \<lparr> idT = ''task-1'', title = ''Original Title'', description = ''Original description'',
       columnId = Todo, position = 65536, version = 6, titleVersion = 6,
       descriptionVersion = 3, columnVersion = 4, positionVersion = 4,
       createdAt = ''t0'', updatedAt = ''t0'' \<rparr>
     5 [SetTitle ''B title'', SetDescription ''B description'']
   = \<lparr> mergedChanges = [SetDescription ''B description''],
       mergedFields = [FDescription], rejectedFields = [FTitle],
       hasConflict = True, fullyRejected = False \<rparr>"
  using analyseConflict_spec [of "[SetTitle ''B title'', SetDescription ''B description'']"
      "\<lparr> idT = ''task-1'', title = ''Original Title'', description = ''Original description'',
         columnId = Todo, position = 65536, version = 6, titleVersion = 6,
         descriptionVersion = 3, columnVersion = 4, positionVersion = 4,
         createdAt = ''t0'', updatedAt = ''t0'' \<rparr>" 5]
  by (simp add: distinct_keys_def analyseConflict_def)

section \<open>Properties of the task service\<close>

lemma filter_key_distinct:
  "distinct (map f xs) \<Longrightarrow> x \<in> set xs \<Longrightarrow> filter (\<lambda>y. f y = f x) xs = [x]"
proof (induction xs)
  case Nil
  then show ?case by simp
next
  case (Cons a xs)
  have fresh: "f a \<notin> f ` set xs" and d: "distinct (map f xs)"
    using Cons.prems(1) by simp_all
  show ?case
  proof (cases "a = x")
    case True
    have "\<forall>y \<in> set xs. f y \<noteq> f x"
      using fresh True by (metis image_eqI)
    then have "filter (\<lambda>y. f y = f x) xs = []"
      by (simp add: filter_empty_conv)
    then show ?thesis using True by simp
  next
    case False
    then have x: "x \<in> set xs" using Cons.prems(2) by simp
    then have "f a \<noteq> f x" using fresh by blast
    then show ?thesis using Cons.IH [OF d x] by simp
  qed
qed

lemma select_by_id_distinct:
  "distinct (map idT tbl) \<Longrightarrow> current \<in> set tbl \<Longrightarrow> select_by_id (idT current) tbl = [current]"
  unfolding select_by_id_def by (rule filter_key_distinct)

lemma select_by_id_empty:
  "select_by_id taskId tbl = [] \<longleftrightarrow> taskId \<notin> idT ` set tbl"
  by (auto simp: select_by_id_def filter_empty_conv)





lemma get_columnId_Some:
  "distinct (map field_of M) \<Longrightarrow> get_columnId M = Some v \<longleftrightarrow> SetColumnId v \<in> set M"
proof (induction M)
  case Nil
  then show ?case by simp
next
  case (Cons c M)
  then show ?case by (cases c) (auto simp: image_iff)
qed

lemma get_columnId_None: "get_columnId M = None \<longleftrightarrow> FColumnId \<notin> field_of ` set M"
proof (induction M)
  case Nil
  then show ?case by simp
next
  case (Cons c M)
  then show ?case by (cases c) auto
qed

lemma get_position_Some:
  "distinct (map field_of M) \<Longrightarrow> get_position M = Some v \<longleftrightarrow> SetPosition v \<in> set M"
proof (induction M)
  case Nil
  then show ?case by simp
next
  case (Cons c M)
  then show ?case by (cases c) (auto simp: image_iff)
qed

lemma get_position_None: "get_position M = None \<longleftrightarrow> FPosition \<notin> field_of ` set M"
proof (induction M)
  case Nil
  then show ?case by simp
next
  case (Cons c M)
  then show ?case by (cases c) auto
qed






lemmas ex_defs = row_v6_def row_other_def edit_both_def



text \<open>
  Claim C4. For every updateTask and every moveTask call on a stored row whose
  conflict analysis is fully rejected: the table after the call is the table before
  it (so the row, its version and its stamps are unchanged), and the result is the
  current row together with a conflict payload of resolution REJECTED that names the
  task, carries the current row, lists no merged field and lists the rejected fields
  of the analysis; moveTask also reports that no rebalance is needed.
\<close>

theorem fully_rejected_no_write:
  assumes pk: "distinct (map idT tbl)" and cur: "current \<in> set tbl"
  shows "(idT current = u_taskId up \<and>
          fullyRejected (analyseConflict current (u_baseVersion up) (u_changes up)) \<longrightarrow>
            updateTask now up tbl =
              (Inr \<lparr> ur_task = current,
                     ur_conflict = Some \<lparr> cr_taskId = idT current, cr_resolution = REJECTED,
                       cr_task = current, cr_mergedFields = [],
                       cr_rejectedFields =
                         rejectedFields (analyseConflict current (u_baseVersion up) (u_changes up)),
                       cr_reason = buildResolutionReason
                         (analyseConflict current (u_baseVersion up) (u_changes up)) \<rparr> \<rparr>,
               tbl)) \<and>
         (idT current = m_taskId mp \<and>
          fullyRejected (analyseConflict current (m_baseVersion mp)
            [SetColumnId (m_columnId mp), SetPosition (m_position mp)]) \<longrightarrow>
            moveTask now mp tbl =
              (Inr \<lparr> mr_task = current,
                     mr_conflict = Some \<lparr> cr_taskId = idT current, cr_resolution = REJECTED,
                       cr_task = current, cr_mergedFields = [],
                       cr_rejectedFields =
                         rejectedFields (analyseConflict current (m_baseVersion mp)
                           [SetColumnId (m_columnId mp), SetPosition (m_position mp)]),
                       cr_reason = buildResolutionReason
                         (analyseConflict current (m_baseVersion mp)
                           [SetColumnId (m_columnId mp), SetPosition (m_position mp)]) \<rparr>,
                     mr_needsRebalance = False \<rparr>,
               tbl))"
proof (intro conjI impI)
  assume h: "idT current = u_taskId up \<and>
          fullyRejected (analyseConflict current (u_baseVersion up) (u_changes up))"
  have sel: "select_by_id (u_taskId up) tbl = [current]"
    using select_by_id_distinct [OF pk cur] h by simp
  show "updateTask now up tbl =
              (Inr \<lparr> ur_task = current,
                     ur_conflict = Some \<lparr> cr_taskId = idT current, cr_resolution = REJECTED,
                       cr_task = current, cr_mergedFields = [],
                       cr_rejectedFields =
                         rejectedFields (analyseConflict current (u_baseVersion up) (u_changes up)),
                       cr_reason = buildResolutionReason
                         (analyseConflict current (u_baseVersion up) (u_changes up)) \<rparr> \<rparr>,
               tbl)"
    using h sel
    by (simp add: updateTask_def withTransaction_def updateTask_body_def Let_def
          rejected_payload_def)
next
  assume h: "idT current = m_taskId mp \<and>
          fullyRejected (analyseConflict current (m_baseVersion mp)
            [SetColumnId (m_columnId mp), SetPosition (m_position mp)])"
  have sel: "select_by_id (m_taskId mp) tbl = [current]"
    using select_by_id_distinct [OF pk cur] h by simp
  show "moveTask now mp tbl =
              (Inr \<lparr> mr_task = current,
                     mr_conflict = Some \<lparr> cr_taskId = idT current, cr_resolution = REJECTED,
                       cr_task = current, cr_mergedFields = [],
                       cr_rejectedFields =
                         rejectedFields (analyseConflict current (m_baseVersion mp)
                           [SetColumnId (m_columnId mp), SetPosition (m_position mp)]),
                       cr_reason = buildResolutionReason
                         (analyseConflict current (m_baseVersion mp)
                           [SetColumnId (m_columnId mp), SetPosition (m_position mp)]) \<rparr>,
                     mr_needsRebalance = False \<rparr>,
               tbl)"
    using h sel
    by (simp add: moveTask_def withTransaction_def moveTask_body_def Let_def
          rejected_payload_def)
qed

theorem fully_rejected_no_write_witness:
  "distinct (map idT [row_v6, row_other]) \<and> row_v6 \<in> set [row_v6, row_other] \<and>
   idT row_v6 = u_taskId edit_title \<and>
   fullyRejected (analyseConflict row_v6 (u_baseVersion edit_title) (u_changes edit_title)) \<and>
   updateTask ''t6'' edit_title [row_v6, row_other] =
     (Inr \<lparr> ur_task = row_v6,
            ur_conflict = Some \<lparr> cr_taskId = ''task-1'', cr_resolution = REJECTED,
              cr_task = row_v6, cr_mergedFields = [], cr_rejectedFields = [FTitle],
              cr_reason = ''All changed fields (title) were already modified by another client. Server state preserved (last-write-wins).'' \<rparr> \<rparr>,
      [row_v6, row_other]) \<and>
   idT row_v6 = m_taskId move_stale \<and>
   fullyRejected (analyseConflict row_v6 (m_baseVersion move_stale)
     [SetColumnId (m_columnId move_stale), SetPosition (m_position move_stale)]) \<and>
   moveTask ''t6'' move_stale [row_v6, row_other] =
     (Inr \<lparr> mr_task = row_v6,
            mr_conflict = Some \<lparr> cr_taskId = ''task-1'', cr_resolution = REJECTED,
              cr_task = row_v6, cr_mergedFields = [],
              cr_rejectedFields = [FColumnId, FPosition],
              cr_reason = ''All changed fields (columnId, position) were already modified by another client. Server state preserved (last-write-wins).'' \<rparr>,
            mr_needsRebalance = False \<rparr>,
      [row_v6, row_other])"
proof -
  have h1: "distinct (map idT [row_v6, row_other])" by (simp add: ex_defs)
  have h2: "row_v6 \<in> set [row_v6, row_other]" by simp
  have au: "analyseConflict row_v6 (u_baseVersion edit_title) (u_changes edit_title)
      = \<lparr> mergedChanges = [], mergedFields = [], rejectedFields = [FTitle],
          hasConflict = True, fullyRejected = True \<rparr>"
    by (simp add: analyseConflict_def ex_defs edit_title_def)
  have am: "analyseConflict row_v6 (m_baseVersion move_stale)
        [SetColumnId (m_columnId move_stale), SetPosition (m_position move_stale)]
      = \<lparr> mergedChanges = [], mergedFields = [], rejectedFields = [FColumnId, FPosition],
          hasConflict = True, fullyRejected = True \<rparr>"
    by (simp add: analyseConflict_def ex_defs move_stale_def)
  have ids: "idT row_v6 = ''task-1''" "u_taskId edit_title = ''task-1''"
    "m_taskId move_stale = ''task-1''"
    by (simp_all add: ex_defs edit_title_def move_stale_def)
  show ?thesis
    using fully_rejected_no_write [OF h1 h2, where up = edit_title and mp = move_stale
        and now = "''t6''"] h1 h2
    by (simp add: au am buildResolutionReason_def ids)
qed

lemma reach_row_rebalanced:
  "snd (rebalanceColumn ''t2'' Todo (snd (createTask ''task-1'' ''t1'' create_first [])))
     = [row_rebalanced]"
  by (simp add: createTask_def createTask_body_def withTransaction_def insert_returning_def
      title_or_default_def trim_def is_space_def rebalanceColumn_def rebalanceColumn_body_def
      select_column_def update_returning_def INITIAL_STEP_def create_first_def
      row_rebalanced_def Let_def)

text \<open>
  Claim C3. The claim says that on a partial merge of a move the rejected field keeps
  its value and its stamp, and only the merged field's stamp becomes the new version.
  The \<open>UPDATE\<close> of moveTask writes the new version to column_version and
  position_version alike, and \<open>mem_moveTask\<close> bumps both stamps too. On the row
  that createTask and then rebalanceColumn produce (position stamp 2, column stamp 1),
  a move from base version 1 merges columnId and rejects position: the position value
  is kept, but its stamp goes from 2 to 3.
\<close>

theorem moveTask_partial_merge_stamps:
  "snd (rebalanceColumn ''t2'' Todo (snd (createTask ''task-1'' ''t1'' create_first [])))
     = [row_rebalanced] \<and>
   analyseConflict row_rebalanced 1 [SetColumnId Done, SetPosition 5]
     = \<lparr> mergedChanges = [SetColumnId Done], mergedFields = [FColumnId],
         rejectedFields = [FPosition], hasConflict = True, fullyRejected = False \<rparr> \<and>
   positionVersion row_rebalanced = 2 \<and>
   moveTask ''t3'' move_base1 [row_rebalanced] =
     (Inr \<lparr> mr_task = row_rebalanced \<lparr> columnId := Done, version := 3, columnVersion := 3,
                                        positionVersion := 3, updatedAt := ''t3'' \<rparr>,
            mr_conflict = Some \<lparr> cr_taskId = ''task-1'', cr_resolution = MERGED,
              cr_task = row_rebalanced \<lparr> columnId := Done, version := 3, columnVersion := 3,
                                        positionVersion := 3, updatedAt := ''t3'' \<rparr>,
              cr_mergedFields = [FColumnId], cr_rejectedFields = [FPosition],
              cr_reason = ''Partial merge: applied [columnId]. Fields [position] conflicted '' @
                          em_dash @ '' server state preserved.'' \<rparr>,
            mr_needsRebalance = False \<rparr>,
      [row_rebalanced \<lparr> columnId := Done, version := 3, columnVersion := 3,
                        positionVersion := 3, updatedAt := ''t3'' \<rparr>]) \<and>
   mem_moveTask ''t3'' move_base1 [row_rebalanced] = moveTask ''t3'' move_base1 [row_rebalanced]"
proof -
  have a: "analyseConflict row_rebalanced 1 [SetColumnId Done, SetPosition 5]
     = \<lparr> mergedChanges = [SetColumnId Done], mergedFields = [FColumnId],
         rejectedFields = [FPosition], hasConflict = True, fullyRejected = False \<rparr>"
    by (simp add: analyseConflict_def row_rebalanced_def)
  have sql: "moveTask ''t3'' move_base1 [row_rebalanced] =
     (Inr \<lparr> mr_task = row_rebalanced \<lparr> columnId := Done, version := 3, columnVersion := 3,
                                        positionVersion := 3, updatedAt := ''t3'' \<rparr>,
            mr_conflict = Some \<lparr> cr_taskId = ''task-1'', cr_resolution = MERGED,
              cr_task = row_rebalanced \<lparr> columnId := Done, version := 3, columnVersion := 3,
                                        positionVersion := 3, updatedAt := ''t3'' \<rparr>,
              cr_mergedFields = [FColumnId], cr_rejectedFields = [FPosition],
              cr_reason = ''Partial merge: applied [columnId]. Fields [position] conflicted '' @
                          em_dash @ '' server state preserved.'' \<rparr>,
            mr_needsRebalance = False \<rparr>,
      [row_rebalanced \<lparr> columnId := Done, version := 3, columnVersion := 3,
                        positionVersion := 3, updatedAt := ''t3'' \<rparr>])"
    by (simp add: moveTask_def withTransaction_def moveTask_body_def select_by_id_def
        update_returning_def select_neighbours_def merged_payload_def
        buildResolutionReason_def analyseConflict_def Let_def move_base1_def
        row_rebalanced_def)
  have mem: "mem_moveTask ''t3'' move_base1 [row_rebalanced] =
     (Inr \<lparr> mr_task = row_rebalanced \<lparr> columnId := Done, version := 3, columnVersion := 3,
                                        positionVersion := 3, updatedAt := ''t3'' \<rparr>,
            mr_conflict = Some \<lparr> cr_taskId = ''task-1'', cr_resolution = MERGED,
              cr_task = row_rebalanced \<lparr> columnId := Done, version := 3, columnVersion := 3,
                                        positionVersion := 3, updatedAt := ''t3'' \<rparr>,
              cr_mergedFields = [FColumnId], cr_rejectedFields = [FPosition],
              cr_reason = ''Partial merge: applied [columnId]. Fields [position] conflicted '' @
                          em_dash @ '' server state preserved.'' \<rparr>,
            mr_needsRebalance = False \<rparr>,
      [row_rebalanced \<lparr> columnId := Done, version := 3, columnVersion := 3,
                        positionVersion := 3, updatedAt := ''t3'' \<rparr>])"
    by (simp add: mem_moveTask_def bumpVersion_def merged_payload_def
        buildResolutionReason_def analyseConflict_def Let_def move_base1_def
        row_rebalanced_def)
  show ?thesis
    using reach_row_rebalanced a sql mem by (simp add: row_rebalanced_def)
qed

section \<open>Properties of the message router\<close>

lemma broadcast_None:
  "broadcast message None conns = map (\<lambda>c. (c, message)) (open_clients conns)"
  by (induction conns) (auto simp: open_clients_def)

lemma broadcast_skip:
  "broadcast message (Some sender) conns
     = map (\<lambda>c. (c, message)) (filter (\<lambda>c. c \<noteq> sender) (open_clients conns))"
  by (induction conns) (auto simp: open_clients_def)

lemma sendTo_open:
  "distinct (map fst conns) \<Longrightarrow> (clientId, OPEN) \<in> set conns \<Longrightarrow>
   sendTo clientId message conns = [(clientId, message)]"
  by (simp add: sendTo_def)

lemma missing_row_update:
  assumes "u_taskId up \<notin> idT ` set (srv_tasks srv)"
  shows "handleMessage envs clientId (Parsed (TaskOp (UPDATE_TASK up))) srv =
     (srv, sendTo clientId
             (ERROR \<lparr> e_code = ''INTERNAL_ERROR'',
                      e_message = ''Task '' @ u_taskId up @ '' not found'',
                      e_taskId = None \<rparr>) (srv_connections srv))"
proof -
  have "select_by_id (u_taskId up) (srv_tasks srv) = []"
    using assms by (simp add: select_by_id_empty)
  then show ?thesis
    by (simp add: handleUpdateTask_def updateTask_def withTransaction_def
        updateTask_body_def catch_internal_def not_found_def)
qed

lemma missing_row_move:
  assumes "m_taskId mp \<notin> idT ` set (srv_tasks srv)"
  shows "handleMessage envs clientId (Parsed (TaskOp (MOVE_TASK mp))) srv =
     (srv, sendTo clientId
             (ERROR \<lparr> e_code = ''INTERNAL_ERROR'',
                      e_message = ''Task '' @ m_taskId mp @ '' not found'',
                      e_taskId = None \<rparr>) (srv_connections srv))"
proof -
  have "select_by_id (m_taskId mp) (srv_tasks srv) = []"
    using assms by (simp add: select_by_id_empty)
  then show ?thesis
    by (simp add: handleMoveTask_def moveTask_def withTransaction_def
        moveTask_body_def catch_internal_def not_found_def)
qed

text \<open>
  Claim C5. The claim says that an UPDATE_TASK or MOVE_TASK for a task id with no row
  is answered with ERROR code NOT_FOUND carrying the taskId. updateTask and moveTask
  throw \<open>Error("Task ... not found")\<close>, which only the \<open>catch\<close> of handleMessage
  sees: the sender gets code INTERNAL_ERROR and no taskId field. Nothing else is sent
  and the state is unchanged, as the claim says. handleDeleteTask, on the same
  condition, does answer NOT_FOUND with the taskId.
\<close>

theorem missing_task_internal_error:
  "handleMessage env_const ''A'' (Parsed (TaskOp (UPDATE_TASK edit_missing))) server_ab =
     (server_ab,
      [(''A'', ERROR \<lparr> e_code = ''INTERNAL_ERROR'', e_message = ''Task task-404 not found'',
                        e_taskId = None \<rparr>)]) \<and>
   handleMessage env_const ''A'' (Parsed (TaskOp (MOVE_TASK move_missing))) server_ab =
     (server_ab,
      [(''A'', ERROR \<lparr> e_code = ''INTERNAL_ERROR'', e_message = ''Task task-404 not found'',
                        e_taskId = None \<rparr>)]) \<and>
   handleMessage env_const ''A'' (Parsed (TaskOp (DELETE_TASK delete_missing))) server_ab =
     (server_ab,
      [(''A'', ERROR \<lparr> e_code = ''NOT_FOUND'', e_message = ''Task task-404 not found'',
                        e_taskId = Some ''task-404'' \<rparr>)])"
proof -
  have u: "u_taskId edit_missing \<notin> idT ` set (srv_tasks server_ab)"
    by (simp add: edit_missing_def server_ab_def ex_defs)
  have m: "m_taskId move_missing \<notin> idT ` set (srv_tasks server_ab)"
    by (simp add: move_missing_def server_ab_def ex_defs)
  have d: "handleMessage env_const ''A'' (Parsed (TaskOp (DELETE_TASK delete_missing))) server_ab =
     (server_ab,
      [(''A'', ERROR \<lparr> e_code = ''NOT_FOUND'', e_message = ''Task task-404 not found'',
                        e_taskId = Some ''task-404'' \<rparr>)])"
    by (simp add: handleDeleteTask_def deleteTask_def withTransaction_def
        deleteTask_body_def delete_returning_def catch_internal_def sendTo_def
        delete_missing_def server_ab_def ex_defs)
  show ?thesis
    using missing_row_update [OF u, of env_const "''A''"]
      missing_row_move [OF m, of env_const "''A''"] d
    by (simp add: sendTo_def server_ab_def edit_missing_def move_missing_def)
qed

lemma sendTo_if:
  "sendTo clientId message conns =
     (if map_of conns clientId = Some OPEN then [(clientId, message)] else [])"
  by (simp add: sendTo_def split: option.splits)

lemma rejected_payload_sel:
  "cr_resolution (rejected_payload current a) = REJECTED"
  "cr_task (rejected_payload current a) = current"
  "cr_taskId (rejected_payload current a) = idT current"
  "cr_mergedFields (rejected_payload current a) = []"
  "cr_rejectedFields (rejected_payload current a) = rejectedFields a"
  by (simp_all add: rejected_payload_def)

text \<open>
  Claim C6, amended. For every UPDATE_TASK (MOVE_TASK) on a stored row whose conflict
  analysis is fully rejected, the router leaves the state as it is and sends, in this
  order: CONFLICT_RESOLVED with resolution REJECTED, the current row and the rejected
  fields to the sender (if its connection is open), then TASK_UPDATED (TASK_MOVED)
  carrying the unchanged current row to every client whose connection is open, the
  sender included.
\<close>

theorem rejected_routing:
  assumes pk: "distinct (map idT (srv_tasks srv))" and cur: "current \<in> set (srv_tasks srv)"
  shows "(idT current = u_taskId up \<and>
          fullyRejected (analyseConflict current (u_baseVersion up) (u_changes up)) \<longrightarrow>
            handleMessage envs clientId (Parsed (TaskOp (UPDATE_TASK up))) srv =
              (srv,
               (if map_of (srv_connections srv) clientId = Some OPEN
                then [(clientId, CONFLICT_RESOLVED (rejected_payload current
                        (analyseConflict current (u_baseVersion up) (u_changes up))))]
                else []) @
               map (\<lambda>c. (c, TASK_UPDATED current)) (open_clients (srv_connections srv)))) \<and>
         (idT current = m_taskId mp \<and>
          fullyRejected (analyseConflict current (m_baseVersion mp)
            [SetColumnId (m_columnId mp), SetPosition (m_position mp)]) \<longrightarrow>
            handleMessage envs clientId (Parsed (TaskOp (MOVE_TASK mp))) srv =
              (srv,
               (if map_of (srv_connections srv) clientId = Some OPEN
                then [(clientId, CONFLICT_RESOLVED (rejected_payload current
                        (analyseConflict current (m_baseVersion mp)
                           [SetColumnId (m_columnId mp), SetPosition (m_position mp)])))]
                else []) @
               map (\<lambda>c. (c, TASK_MOVED current)) (open_clients (srv_connections srv)))) \<and>
         cr_resolution (rejected_payload current a) = REJECTED \<and>
         cr_task (rejected_payload current a) = current \<and>
         cr_rejectedFields (rejected_payload current a) = rejectedFields a"
proof (intro conjI impI)
  assume h: "idT current = u_taskId up \<and>
          fullyRejected (analyseConflict current (u_baseVersion up) (u_changes up))"
  have sel: "select_by_id (u_taskId up) (srv_tasks srv) = [current]"
    using select_by_id_distinct [OF pk cur] h by simp
  show "handleMessage envs clientId (Parsed (TaskOp (UPDATE_TASK up))) srv =
              (srv,
               (if map_of (srv_connections srv) clientId = Some OPEN
                then [(clientId, CONFLICT_RESOLVED (rejected_payload current
                        (analyseConflict current (u_baseVersion up) (u_changes up))))]
                else []) @
               map (\<lambda>c. (c, TASK_UPDATED current)) (open_clients (srv_connections srv)))"
    using h sel
    by (simp add: handleUpdateTask_def updateTask_def withTransaction_def updateTask_body_def
        Let_def catch_internal_def resolution_is_def send_conflict_def rejected_payload_sel
        sendTo_if broadcast_None)
next
  assume h: "idT current = m_taskId mp \<and>
          fullyRejected (analyseConflict current (m_baseVersion mp)
            [SetColumnId (m_columnId mp), SetPosition (m_position mp)])"
  have sel: "select_by_id (m_taskId mp) (srv_tasks srv) = [current]"
    using select_by_id_distinct [OF pk cur] h by simp
  show "handleMessage envs clientId (Parsed (TaskOp (MOVE_TASK mp))) srv =
              (srv,
               (if map_of (srv_connections srv) clientId = Some OPEN
                then [(clientId, CONFLICT_RESOLVED (rejected_payload current
                        (analyseConflict current (m_baseVersion mp)
                           [SetColumnId (m_columnId mp), SetPosition (m_position mp)])))]
                else []) @
               map (\<lambda>c. (c, TASK_MOVED current)) (open_clients (srv_connections srv)))"
    using h sel
    by (simp add: handleMoveTask_def moveTask_def withTransaction_def moveTask_body_def
        Let_def catch_internal_def resolution_is_def send_conflict_def rejected_payload_sel
        sendTo_if broadcast_None)
qed (simp_all add: rejected_payload_sel)

lemma eval_rejected_update:
  "handleMessage env_const ''A'' (Parsed (TaskOp (UPDATE_TASK edit_title))) server_ab =
     (server_ab,
      [(''A'', CONFLICT_RESOLVED \<lparr> cr_taskId = ''task-1'', cr_resolution = REJECTED,
              cr_task = row_v6, cr_mergedFields = [], cr_rejectedFields = [FTitle],
              cr_reason = ''All changed fields (title) were already modified by another client. Server state preserved (last-write-wins).'' \<rparr>),
       (''A'', TASK_UPDATED row_v6), (''B'', TASK_UPDATED row_v6)])"
  by (simp add: handleUpdateTask_def updateTask_def withTransaction_def updateTask_body_def
      select_by_id_def analyseConflict_def Let_def catch_internal_def resolution_is_def
      send_conflict_def rejected_payload_def sendTo_def buildResolutionReason_def
      server_ab_def edit_title_def ex_defs)

theorem rejected_routing_witness:
  "distinct (map idT (srv_tasks server_ab)) \<and> row_v6 \<in> set (srv_tasks server_ab) \<and>
   idT row_v6 = u_taskId edit_title \<and>
   fullyRejected (analyseConflict row_v6 (u_baseVersion edit_title) (u_changes edit_title)) \<and>
   idT row_v6 = m_taskId move_stale \<and>
   fullyRejected (analyseConflict row_v6 (m_baseVersion move_stale)
     [SetColumnId (m_columnId move_stale), SetPosition (m_position move_stale)]) \<and>
   open_clients (srv_connections server_ab) = [''A'', ''B''] \<and>
   handleMessage env_const ''A'' (Parsed (TaskOp (UPDATE_TASK edit_title))) server_ab =
     (server_ab,
      [(''A'', CONFLICT_RESOLVED (rejected_payload row_v6
          (analyseConflict row_v6 (u_baseVersion edit_title) (u_changes edit_title)))),
       (''A'', TASK_UPDATED row_v6), (''B'', TASK_UPDATED row_v6)]) \<and>
   handleMessage env_const ''A'' (Parsed (TaskOp (MOVE_TASK move_stale))) server_ab =
     (server_ab,
      [(''A'', CONFLICT_RESOLVED (rejected_payload row_v6
          (analyseConflict row_v6 (m_baseVersion move_stale)
             [SetColumnId (m_columnId move_stale), SetPosition (m_position move_stale)]))),
       (''A'', TASK_MOVED row_v6), (''B'', TASK_MOVED row_v6)])"
proof -
  have h1: "distinct (map idT (srv_tasks server_ab))" by (simp add: server_ab_def ex_defs)
  have h2: "row_v6 \<in> set (srv_tasks server_ab)" by (simp add: server_ab_def)
  have au: "fullyRejected (analyseConflict row_v6 (u_baseVersion edit_title) (u_changes edit_title))"
    by (simp add: analyseConflict_def ex_defs edit_title_def)
  have am: "fullyRejected (analyseConflict row_v6 (m_baseVersion move_stale)
        [SetColumnId (m_columnId move_stale), SetPosition (m_position move_stale)])"
    by (simp add: analyseConflict_def ex_defs move_stale_def)
  have ids: "idT row_v6 = u_taskId edit_title" "idT row_v6 = m_taskId move_stale"
    by (simp_all add: ex_defs edit_title_def move_stale_def)
  have oc: "open_clients (srv_connections server_ab) = [''A'', ''B'']"
    and mo: "map_of (srv_connections server_ab) ''A'' = Some OPEN"
    by (simp_all add: open_clients_def server_ab_def)
  show ?thesis
    using rejected_routing [OF h1 h2, where up = edit_title and mp = move_stale
        and envs = env_const and clientId = "''A''"] h1 h2 au am ids
    by (simp add: oc mo)
qed

text \<open>
  Claim C6 as stated has the broadcast skip the sender. With clients A and B open and
  A's title edit fully rejected, A receives TASK_UPDATED as well: the messages sent
  are not those of a broadcast that skips A.
\<close>

theorem rejected_broadcast_counterexample:
  "snd (handleMessage env_const ''A'' (Parsed (TaskOp (UPDATE_TASK edit_title))) server_ab) =
     [(''A'', CONFLICT_RESOLVED \<lparr> cr_taskId = ''task-1'', cr_resolution = REJECTED,
              cr_task = row_v6, cr_mergedFields = [], cr_rejectedFields = [FTitle],
              cr_reason = ''All changed fields (title) were already modified by another client. Server state preserved (last-write-wins).'' \<rparr>),
      (''A'', TASK_UPDATED row_v6), (''B'', TASK_UPDATED row_v6)] \<and>
   (''A'', TASK_UPDATED row_v6) \<in>
     set (snd (handleMessage env_const ''A'' (Parsed (TaskOp (UPDATE_TASK edit_title))) server_ab)) \<and>
   filter (\<lambda>(c, m). m = TASK_UPDATED row_v6)
     (snd (handleMessage env_const ''A'' (Parsed (TaskOp (UPDATE_TASK edit_title))) server_ab))
     \<noteq> broadcast (TASK_UPDATED row_v6) (Some ''A'') (srv_connections server_ab)"
  unfolding eval_rejected_update by (simp add: server_ab_def)

section \<open>Properties of the column rebalance\<close>


























section \<open>The in-memory store against the SQL-backed service\<close>



























section \<open>Properties of the positions\<close>


















section \<open>positionBetween under rounding\<close>

text \<open>The binary exponent brackets its argument, and is the only integer that does.\<close>

lemma ilog2_bounds: "0 < n \<Longrightarrow> 2 ^ ilog2 n \<le> n \<and> n < 2 ^ (ilog2 n + 1)"
proof (induction n rule: ilog2.induct)
  case (1 n)
  show ?case
  proof (cases "n < 2")
    case True
    with "1.prems" have "n = 1" by simp
    then show ?thesis by (simp add: ilog2.simps)
  next
    case False
    then have pos: "0 < n div 2" by simp
    from "1.IH" [OF False pos]
    have ih: "2 ^ ilog2 (n div 2) \<le> n div 2" "n div 2 < 2 ^ (ilog2 (n div 2) + 1)" by simp_all
    have eq: "ilog2 n = Suc (ilog2 (n div 2))" using False by (subst ilog2.simps) simp
    from ih show ?thesis unfolding eq by simp linarith
  qed
qed

lemma floor_log2_bounds:
  assumes "x \<noteq> 0"
  shows "2 powi floor_log2 x \<le> \<bar>x\<bar>" and "\<bar>x\<bar> < 2 powi (floor_log2 x + 1)"
proof -
  obtain p q where pq: "quotient_of \<bar>x\<bar> = (p, q)" by (cases "quotient_of \<bar>x\<bar>")
  have q: "0 < q" using pq quotient_of_denom_pos by blast
  have x: "\<bar>x\<bar> = of_int p / of_int q" using pq by (rule quotient_of_div)
  have "0 < \<bar>x\<bar>" using assms by simp
  with x q have p: "0 < p" by (simp add: zero_less_divide_iff)
  define i where "i = ilog2 (nat p)"
  define j where "j = ilog2 (nat q)"
  from ilog2_bounds [of "nat p"] p
  have "2 ^ i \<le> nat p" "nat p < 2 ^ (i + 1)" by (simp_all add: i_def)
  then have "int (2 ^ i) \<le> p" "p < int (2 ^ (i + 1))" using p by linarith+
  then have pi: "(2::rat) ^ i \<le> of_int p" "(of_int p :: rat) < 2 ^ (i + 1)"
    by (metis of_int_le_iff of_int_of_nat_eq of_nat_numeral of_nat_power,
        metis of_int_less_iff of_int_of_nat_eq of_nat_numeral of_nat_power)
  from ilog2_bounds [of "nat q"] q
  have "2 ^ j \<le> nat q" "nat q < 2 ^ (j + 1)" by (simp_all add: j_def)
  then have "int (2 ^ j) \<le> q" "q < int (2 ^ (j + 1))" using q by linarith+
  then have qj: "(2::rat) ^ j \<le> of_int q" "(of_int q :: rat) < 2 ^ (j + 1)"
    by (metis of_int_le_iff of_int_of_nat_eq of_nat_numeral of_nat_power,
        metis of_int_less_iff of_int_of_nat_eq of_nat_numeral of_nat_power)
  have qpos: "(0::rat) < of_int q" using q by simp
  have ppos: "(0::rat) < of_int p" using p by simp
  define e0 where "e0 = int i - int j"
  have e0: "(2::rat) powi e0 = 2 ^ i / 2 ^ j"
    unfolding e0_def by (simp add: power_int_diff)
  have up: "\<bar>x\<bar> < 2 powi (e0 + 1)"
  proof -
    have "of_int p / of_int q < (2::rat) ^ (i + 1) / of_int q"
      using pi(2) qpos by (simp add: divide_strict_right_mono)
    also have "\<dots> \<le> 2 ^ (i + 1) / 2 ^ j"
      using qj(1) by (simp add: frac_le)
    also have "\<dots> = 2 powi (e0 + 1)"
      by (simp add: power_int_add e0)
    finally show ?thesis unfolding x .
  qed
  have lo: "2 powi (e0 - 1) \<le> \<bar>x\<bar>"
  proof -
    have "(2::rat) powi (e0 - 1) = 2 ^ i / 2 ^ (j + 1)"
      by (simp add: power_int_diff e0)
    also have "\<dots> \<le> of_int p / 2 ^ (j + 1)"
      using pi(1) by (simp add: divide_right_mono)
    also have "\<dots> \<le> of_int p / of_int q"
      using qj(2) ppos qpos by (simp add: frac_le)
    finally show ?thesis unfolding x .
  qed
  have fl: "floor_log2 x = (if 2 powi e0 \<le> \<bar>x\<bar> then e0 else e0 - 1)"
    unfolding floor_log2_def pq by (simp add: Let_def e0_def i_def j_def)
  show "2 powi floor_log2 x \<le> \<bar>x\<bar>" using lo unfolding fl by simp
  show "\<bar>x\<bar> < 2 powi (floor_log2 x + 1)" using up unfolding fl by simp
qed

lemma floor_log2_unique:
  assumes "2 powi e \<le> \<bar>x\<bar>" and "\<bar>x\<bar> < 2 powi (e + 1)"
  shows "floor_log2 x = e"
proof -
  have pos: "(0::rat) < 2 powi e" by simp
  have nz: "x \<noteq> 0"
  proof
    assume "x = 0"
    with assms(1) have "(2::rat) powi e \<le> 0" by simp
    with pos show False by linarith
  qed
  note b = floor_log2_bounds [OF nz]
  have "\<not> e + 1 \<le> floor_log2 x"
  proof
    assume "e + 1 \<le> floor_log2 x"
    then have "(2::rat) powi (e + 1) \<le> 2 powi floor_log2 x"
      by (intro power_int_increasing) simp_all
    with b(1) assms(2) show False by linarith
  qed
  moreover have "\<not> floor_log2 x + 1 \<le> e"
  proof
    assume "floor_log2 x + 1 \<le> e"
    then have "(2::rat) powi (floor_log2 x + 1) \<le> 2 powi e"
      by (intro power_int_increasing) simp_all
    with b(2) assms(1) show False by linarith
  qed
  ultimately show ?thesis by linarith
qed

text \<open>Rounding to an integer moves a value by at most one half and is monotone at
  integers.\<close>

lemma round_half_even_error: "\<bar>of_int (round_half_even y) - y\<bar> \<le> 1 / 2"
proof -
  have "of_int \<lfloor>y\<rfloor> \<le> y" "y < of_int \<lfloor>y\<rfloor> + 1" by linarith+
  then show ?thesis
    by (auto simp: round_half_even_def Let_def abs_le_iff)
qed

lemma round_half_even_ge: "of_int n \<le> y \<Longrightarrow> n \<le> round_half_even y"
proof -
  assume "of_int n \<le> y"
  then have "n \<le> \<lfloor>y\<rfloor>" by (simp add: le_floor_iff)
  then show ?thesis by (auto simp: round_half_even_def Let_def)
qed

lemma round_half_even_le: "y \<le> of_int n \<Longrightarrow> round_half_even y \<le> n"
proof -
  assume a: "y \<le> of_int n"
  show ?thesis
  proof (cases "y = of_int n")
    case True
    then show ?thesis by (simp add: round_half_even_def Let_def)
  next
    case False
    with a have "y < of_int n" by simp
    then have "\<lfloor>y\<rfloor> < n" by (simp add: floor_less_iff)
    then show ?thesis by (auto simp: round_half_even_def Let_def)
  qed
qed

lemma round_half_even_abs_le: "\<bar>y\<bar> \<le> of_int n \<Longrightarrow> \<bar>round_half_even y\<bar> \<le> n"
proof -
  assume a: "\<bar>y\<bar> \<le> of_int n"
  then have "y \<le> of_int n" "of_int (- n) \<le> y" by (simp_all add: abs_le_iff)
  then have "round_half_even y \<le> n" "- n \<le> round_half_even y"
    using round_half_even_le [of y n] round_half_even_ge [of "- n" y] by simp_all
  then show ?thesis by linarith
qed

text \<open>Rounding a value whose binary exponent is known.\<close>

lemma round_f64_grid:
  assumes nz: "x \<noteq> 0" and e: "e = max (floor_log2 x) (- 1022)" "e \<le> 1022"
  shows "round_f64 x = Finite (of_int (round_half_even (x / 2 powi (e - 52))) * 2 powi (e - 52))"
proof -
  define q :: rat where "q = 2 powi (e - 52)"
  have qpos: "0 < q" by (simp add: q_def)
  define n where "n = round_half_even (x / q)"
  have "floor_log2 x + 1 \<le> e + 1" using e(1) by simp
  then have "(2::rat) powi (floor_log2 x + 1) \<le> 2 powi (e + 1)"
    by (intro power_int_increasing) simp_all
  with floor_log2_bounds(2) [OF nz] have hi: "\<bar>x\<bar> < 2 powi (e + 1)" by linarith
  have "\<bar>x / q\<bar> = \<bar>x\<bar> / q" using qpos by simp
  also have "\<dots> \<le> 2 powi (e + 1) / q" using hi qpos by (simp add: divide_right_mono)
  also have "\<dots> = 2 powi 53" unfolding q_def by (simp add: power_int_diff power_int_add)
  also have "\<dots> = of_int (2 ^ 53)" by simp
  finally have "\<bar>n\<bar> \<le> 2 ^ 53" unfolding n_def by (rule round_half_even_abs_le)
  then have "\<bar>of_int n :: rat\<bar> \<le> 2 ^ 53"
    by (metis of_int_abs of_int_le_iff of_int_numeral of_int_power)
  then have "\<bar>of_int n * q\<bar> \<le> 2 ^ 53 * q" using qpos by (simp add: abs_mult)
  also have "\<dots> = 2 powi (e + 1)" unfolding q_def by (simp add: power_int_diff power_int_add)
  also have "\<dots> \<le> 2 powi 1023" using e(2) by (intro power_int_increasing) simp_all
  also have "\<dots> < (2::rat) powi 1024" by (intro power_int_strict_increasing) simp_all
  finally have "\<not> 2 powi 1024 \<le> \<bar>of_int n * q\<bar>" by simp
  then show ?thesis
    using nz unfolding round_f64_def e(1) [symmetric] Let_def n_def q_def by simp
qed

lemma round_f64_exponent:
  assumes lo: "2 powi e \<le> \<bar>x\<bar>" and hi: "\<bar>x\<bar> < 2 powi (e + 1)"
    and e: "- 1022 \<le> e" "e \<le> 1022"
  shows "round_f64 x = Finite (of_int (round_half_even (x / 2 powi (e - 52))) * 2 powi (e - 52))"
proof -
  have pos: "(0::rat) < 2 powi e" by simp
  have nz: "x \<noteq> 0"
  proof
    assume "x = 0"
    with lo have "(2::rat) powi e \<le> 0" by simp
    with pos show False by linarith
  qed
  have fl: "floor_log2 x = e" using lo hi by (rule floor_log2_unique)
  have "e = max (floor_log2 x) (- 1022)" using e(1) unfolding fl by simp
  with nz show ?thesis using e(2) by (rule round_f64_grid)
qed

text \<open>Below \<open>2 ^ k\<close> rounding stays finite and moves a value by at most half a unit in
  the last place of that binade.\<close>

lemma round_f64_error:
  assumes x: "\<bar>x\<bar> < 2 powi k" and k: "- 1021 \<le> k" "k \<le> 1023"
  shows "\<exists>y. round_f64 x = Finite y \<and> \<bar>y - x\<bar> \<le> 2 powi (k - 54)"
proof (cases "x = 0")
  case True
  then show ?thesis by (simp add: round_f64_def)
next
  case nz: False
  define e where "e = max (floor_log2 x) (- 1022)"
  have "\<not> k \<le> floor_log2 x"
  proof
    assume "k \<le> floor_log2 x"
    then have "(2::rat) powi k \<le> 2 powi floor_log2 x"
      by (intro power_int_increasing) simp_all
    with floor_log2_bounds(1) [OF nz] x show False by linarith
  qed
  then have ek: "e \<le> k - 1" using k(1) by (simp add: e_def)
  then have e1022: "e \<le> 1022" using k(2) by simp
  define q :: rat where "q = 2 powi (e - 52)"
  have qpos: "0 < q" by (simp add: q_def)
  define n where "n = round_half_even (x / q)"
  have r: "round_f64 x = Finite (of_int n * q)"
    unfolding n_def q_def using nz e_def e1022 by (rule round_f64_grid)
  have "of_int n * q - x = (of_int n - x / q) * q" using qpos by (simp add: field_simps)
  then have "\<bar>of_int n * q - x\<bar> = \<bar>of_int n - x / q\<bar> * q"
    using qpos by (simp add: abs_mult)
  also have "\<dots> \<le> 1 / 2 * q"
    using round_half_even_error [of "x / q"] qpos unfolding n_def
    by (intro mult_right_mono) simp_all
  also have "\<dots> = 2 powi (e - 53)" unfolding q_def by (simp add: power_int_diff)
  also have "\<dots> \<le> 2 powi (k - 54)" using ek by (intro power_int_increasing) simp_all
  finally show ?thesis using r by blast
qed

text \<open>Rounding does not cross the representable value \<open>1/2\<close>.\<close>

lemma round_f64_ge_half:
  assumes x: "1 / 2 \<le> x" "x < 2 powi k" and k: "k \<le> 1023" and r: "round_f64 x = Finite y"
  shows "1 / 2 \<le> y"
proof -
  have nz: "x \<noteq> 0" using x(1) by auto
  have xabs: "\<bar>x\<bar> = x" using x(1) by simp
  define e where "e = floor_log2 x"
  note b = floor_log2_bounds [OF nz, unfolded xabs, folded e_def]
  have e_lo: "- 1 \<le> e"
  proof (rule ccontr)
    assume "\<not> - 1 \<le> e"
    then have "e + 1 \<le> - 1" by simp
    then have "(2::rat) powi (e + 1) \<le> 2 powi (- 1)"
      by (intro power_int_increasing) simp_all
    with b(2) x(1) show False by simp
  qed
  have "\<not> k \<le> e"
  proof
    assume "k \<le> e"
    then have "(2::rat) powi k \<le> 2 powi e"
      by (intro power_int_increasing) simp_all
    with b(1) x(2) show False by linarith
  qed
  then have e_hi: "e \<le> 1022" using k by simp
  define q :: rat where "q = 2 powi (e - 52)"
  have qpos: "0 < q" by (simp add: q_def)
  have em: "e = max (floor_log2 x) (- 1022)" using e_lo by (simp add: e_def)
  have "round_f64 x = Finite (of_int (round_half_even (x / q)) * q)"
    unfolding q_def using nz em e_hi by (rule round_f64_grid)
  with r have y: "y = of_int (round_half_even (x / q)) * q" by simp
  have "(2::rat) powi e / q = 2 powi 52" unfolding q_def by (simp add: power_int_diff)
  also have "\<dots> = of_int (2 ^ 52)" by simp
  finally have "of_int (2 ^ 52) \<le> x / q" using b(1) qpos
    by (metis divide_right_mono less_imp_le)
  then have "2 ^ 52 \<le> round_half_even (x / q)" by (rule round_half_even_ge)
  then have "(2::rat) ^ 52 \<le> of_int (round_half_even (x / q))"
    by (metis of_int_le_iff of_int_numeral of_int_power)
  then have "2 ^ 52 * q \<le> y" unfolding y using qpos by (simp add: mult_right_mono)
  moreover have "2 ^ 52 * q = 2 powi e" unfolding q_def by (simp add: power_int_diff)
  moreover have "(2::rat) powi (- 1) \<le> 2 powi e" using e_lo
    by (intro power_int_increasing) simp_all
  ultimately show ?thesis by simp
qed

text \<open>
  Claim C8. For all binary64 positions \<open>a\<close> and \<open>b\<close> with \<open>b - a \<ge> MIN_GAP\<close>,
  \<open>positionBetween a b\<close> is not the exhausted result and lies strictly between \<open>a\<close> and
  \<open>b\<close>. This holds when the positions are of moderate size: for \<open>\<bar>a\<bar>, \<bar>b\<bar> \<le> 2 ^ 48\<close>
  the three roundings (of the gap, of its half and of the sum) move the result by at
  most \<open>1/8\<close> from the exact midpoint, which is at least \<open>1/4\<close> away from both ends, and
  the rounded gap is still at least \<open>1/2\<close>. The statement does not need \<open>a\<close> and \<open>b\<close>
  to be representable, so it covers every pair of binary64 values in that range.
\<close>

theorem positionBetween_inside:
  assumes a: "\<bar>a\<bar> \<le> 2 ^ 48" and b: "\<bar>b\<bar> \<le> 2 ^ 48" and gap: "MIN_GAP \<le> b - a"
  shows "\<exists>r. positionBetween (Some (Finite a)) (Some (Finite b)) = Some (Finite r)
             \<and> a < r \<and> r < b"
proof -
  have gap': "1 / 2 \<le> b - a" using gap by (simp add: MIN_GAP_def)
  have a': "- 281474976710656 \<le> a" "a \<le> 281474976710656" using a by (simp_all add: abs_le_iff)
  have b': "- 281474976710656 \<le> b" "b \<le> 281474976710656" using b by (simp_all add: abs_le_iff)
  have "\<bar>b - a\<bar> < 2 powi 50" using a' b' by simp
  from round_f64_error [OF this]
  obtain g where g: "round_f64 (b - a) = Finite g" and ge: "\<bar>g - (b - a)\<bar> \<le> 1 / 16"
    by auto
  have g': "g - (b - a) \<le> 1 / 16" "- (1 / 16) \<le> g - (b - a)"
    using ge by linarith+
  have "b - a < 2 powi 50" using a' b' by simp
  then have g_half: "1 / 2 \<le> g" by (rule round_f64_ge_half [OF gap' _ _ g]) simp
  have "\<bar>g / 2\<bar> < 2 powi 49" using g' a' b' by (simp add: abs_less_iff)
  from round_f64_error [OF this]
  obtain h where h: "round_f64 (g / 2) = Finite h" and he: "\<bar>h - g / 2\<bar> \<le> 1 / 32"
    by auto
  have h': "h - g / 2 \<le> 1 / 32" "- (1 / 32) \<le> h - g / 2"
    using he by linarith+
  have "\<bar>a + h\<bar> < 2 powi 50" using g' h' a' b' by (simp add: abs_less_iff)
  from round_f64_error [OF this]
  obtain r where r: "round_f64 (a + h) = Finite r" and re: "\<bar>r - (a + h)\<bar> \<le> 1 / 16"
    by auto
  have r': "r - (a + h) \<le> 1 / 16" "- (1 / 16) \<le> r - (a + h)"
    using re by linarith+
  have "positionBetween (Some (Finite a)) (Some (Finite b)) = Some (Finite r)"
    using g g_half h r by (simp add: f64_sub_def MIN_GAP_def Let_def)
  moreover have "a < r" "r < b" using g' h' r' gap' by simp_all
  ultimately show ?thesis by blast
qed

text \<open>Rounding of the concrete values used below.\<close>

lemma floor_rat_numeral:
  "\<lfloor>(numeral a :: rat) / numeral b\<rfloor> = numeral a div numeral b"
  using floor_divide_of_int_eq [of "numeral a" "numeral b", where ?'a = rat] by simp

lemmas round_eval = round_half_even_def Let_def floor_rat_numeral

lemma round_f64_2_53_1: "round_f64 9007199254740993 = Finite 9007199254740992"
  by (subst round_f64_exponent [where e = 53]) (simp_all add: round_eval)

lemma round_f64_2_53: "round_f64 9007199254740992 = Finite 9007199254740992"
  by (subst round_f64_exponent [where e = 53]) (simp_all add: round_eval)

lemma round_f64_2_53_2: "round_f64 9007199254740994 = Finite 9007199254740994"
  by (subst round_f64_exponent [where e = 53]) (simp_all add: round_eval)

lemma round_f64_two: "round_f64 2 = Finite 2"
  by (subst round_f64_exponent [where e = 1]) (simp_all add: round_eval)

lemma round_f64_one: "round_f64 1 = Finite 1"
  by (subst round_f64_exponent [where e = 0]) (simp_all add: round_eval)

theorem positionBetween_inside_witness:
  "\<bar>1 :: rat\<bar> \<le> 2 ^ 48 \<and> \<bar>3 / 2 :: rat\<bar> \<le> 2 ^ 48 \<and> MIN_GAP \<le> 3 / 2 - 1
   \<and> (\<exists>r. positionBetween (Some (Finite 1)) (Some (Finite (3 / 2))) = Some (Finite r)
            \<and> 1 < r \<and> r < 3 / 2)"
  using positionBetween_inside [of 1 "3 / 2"] by (simp add: MIN_GAP_def)

text \<open>
  Without a bound on the size the claim fails. \<open>2 ^ 53\<close> and \<open>2 ^ 53 + 2\<close> are
  neighbouring binary64 values, two apart; the gap \<open>2\<close> and its half \<open>1\<close> are exact, but
  \<open>2 ^ 53 + 1\<close> lies halfway between the two and rounds to the even significand, which
  is \<open>2 ^ 53\<close>: the result is \<open>a\<close> itself.
\<close>

theorem positionBetween_rounding_counterexample:
  "is_f64 9007199254740992 \<and> is_f64 9007199254740994
   \<and> MIN_GAP \<le> 9007199254740994 - 9007199254740992
   \<and> positionBetween (Some (Finite 9007199254740992)) (Some (Finite 9007199254740994))
       = Some (Finite 9007199254740992)
   \<and> \<not> (\<exists>r. positionBetween (Some (Finite 9007199254740992))
                  (Some (Finite 9007199254740994)) = Some (Finite r)
              \<and> 9007199254740992 < r \<and> r < 9007199254740994)"
  by (simp add: is_f64_def round_f64_2_53 round_f64_2_53_2 round_f64_2_53_1 round_f64_two
      round_f64_one f64_sub_def MIN_GAP_def)

end
